theory Spec2Isabelle
  imports Main "HOL-Library.Word"
begin

unbundle bit_operations_syntax

section \<open>CAN frames and the constants of the socketCAN interface\<close>

text \<open>
  The flag and mask constants come from the system headers \<^verbatim>\<open>linux/can.h\<close> and
  \<^verbatim>\<open>linux/can/error.h\<close>; they are part of the kernel interface and are written
  here with the values those headers give them.
\<close>

definition CAN_EFF_FLAG :: "32 word" where "CAN_EFF_FLAG = 0x80000000"
definition CAN_RTR_FLAG :: "32 word" where "CAN_RTR_FLAG = 0x40000000"
definition CAN_ERR_FLAG :: "32 word" where "CAN_ERR_FLAG = 0x20000000"
definition CAN_SFF_MASK :: "32 word" where "CAN_SFF_MASK = 0x000007FF"

definition CAN_ERR_CRTL :: "32 word" where "CAN_ERR_CRTL = 0x00000004"
definition CAN_ERR_ACK :: "32 word" where "CAN_ERR_ACK = 0x00000020"
definition CAN_ERR_BUSOFF :: "32 word" where "CAN_ERR_BUSOFF = 0x00000040"

definition CAN_ERR_CRTL_RX_OVERFLOW :: "8 word" where "CAN_ERR_CRTL_RX_OVERFLOW = 0x01"
definition CAN_ERR_CRTL_TX_OVERFLOW :: "8 word" where "CAN_ERR_CRTL_TX_OVERFLOW = 0x02"
definition CAN_ERR_CRTL_RX_WARNING :: "8 word" where "CAN_ERR_CRTL_RX_WARNING = 0x04"
definition CAN_ERR_CRTL_TX_WARNING :: "8 word" where "CAN_ERR_CRTL_TX_WARNING = 0x08"
definition CAN_ERR_CRTL_RX_PASSIVE :: "8 word" where "CAN_ERR_CRTL_RX_PASSIVE = 0x10"
definition CAN_ERR_CRTL_TX_PASSIVE :: "8 word" where "CAN_ERR_CRTL_TX_PASSIVE = 0x20"
definition CAN_ERR_CRTL_ACTIVE :: "8 word" where "CAN_ERR_CRTL_ACTIVE = 0x40"

text \<open>
  \<^verbatim>\<open>struct can_frame\<close>: the identifier word (11 or 29 identifier bits plus the
  EFF, RTR and ERR flags in the three top bits), the length byte and the payload. The
  payload field is called \<^verbatim>\<open>data\<close> in C; it is \<open>frame_data\<close> here because the
  object-dictionary argument record below has a field of the same name.
\<close>

record can_frame =
  can_id :: "32 word"
  can_dlc :: "8 word"
  frame_data :: "8 word list"

text \<open>\<^verbatim>\<open>msg->data[i]\<close>; a frame always carries its eight payload bytes, a shorter
  list reads as zero.\<close>

definition data_at :: "can_frame \<Rightarrow> nat \<Rightarrow> 8 word" where
  "data_at msg i = (if i < length (frame_data msg) then frame_data msg ! i else 0)"

section \<open>Fault recovery: the interface error handler (CO\_error.c)\<close>

datatype CO_CANinterfaceState_t =
  CO_INTERFACE_ACTIVE | CO_INTERFACE_LISTEN_ONLY | CO_INTERFACE_BUS_OFF

text \<open>
  \<^verbatim>\<open>struct timespec\<close>. On the 64-bit Linux targets of the socketCAN driver
  \<^verbatim>\<open>time_t\<close> and \<^verbatim>\<open>long\<close> are signed 64-bit integers: both fields are 64-bit
  words, read as two's complement numbers by \<open>sint\<close>, and arithmetic on them wraps
  around as it does in the compiled code.
\<close>

record timespec =
  tv_sec :: "64 word"
  tv_nsec :: "64 word"

text \<open>
  \<^verbatim>\<open>CO_CANinterfaceErrorhandler_t\<close>. Its declaration (CO\_error.h) is not among the
  sources; the fields are the ones CO\_error.c reads and writes, the counter an unsigned
  32-bit integer.
\<close>

record CO_CANinterfaceErrorhandler_t =
  fd :: int
  ifName :: string
  noackCounter :: "32 word"
  listenOnly :: bool
  timestamp :: timespec

text \<open>
  What one call sees of the operating system: the reading of
  \<^verbatim>\<open>clock_gettime(CLOCK_MONOTONIC)\<close> and the number of frames queued on the socket.
  What it does to the operating system is returned as a list of calls: the shell commands
  handed to \<^verbatim>\<open>system\<close> and the number of queued frames thrown away.
  \<^verbatim>\<open>log_printf\<close> expands to nothing in the default configuration and is left out.
\<close>

record os_view =
  clock_monotonic :: timespec
  rx_pending :: nat

datatype os_call = System string | Recv_dropped nat

text \<open>\<^verbatim>\<open>snprintf(command, sizeof(command), ...)\<close> with \<^verbatim>\<open>char command[100]\<close>:
  at most 99 characters are kept.\<close>

definition snprintf_command :: "string \<Rightarrow> string" where
  "snprintf_command s = take 99 s"

text \<open>The loop \<^verbatim>\<open>while (recv(fd, &dummy, sizeof(dummy), MSG_DONTWAIT) > 0) i++\<close>:
  every queued frame makes one non-blocking \<^verbatim>\<open>recv\<close> succeed; the first argument is
  the number of frames still queued, the second the counter \<^verbatim>\<open>i\<close>.\<close>

fun drop_msgs :: "nat \<Rightarrow> nat \<Rightarrow> nat" where
  "drop_msgs 0 i = i"
| "drop_msgs (Suc n) i = drop_msgs n (i + 1)"

definition CO_CANerrorResetIf ::
  "os_view \<Rightarrow> CO_CANinterfaceErrorhandler_t \<Rightarrow>
   CO_CANinterfaceState_t \<times> CO_CANinterfaceErrorhandler_t \<times> os_call list" where
  "CO_CANerrorResetIf os h =
     (let h1 = h\<lparr>timestamp := clock_monotonic os\<rparr>;
          h2 = h1\<lparr>listenOnly := True\<rparr>;
          down = snprintf_command (''ip link set '' @ ifName h2 @ '' down'');
          i = drop_msgs (rx_pending os) 0;
          up = snprintf_command (''ip link set '' @ ifName h2 @ '' up'')
      in (CO_INTERFACE_LISTEN_ONLY, h2, [System down, Recv_dropped i, System up]))"

definition CO_CANerrorClearListenOnly ::
  "CO_CANinterfaceErrorhandler_t \<Rightarrow> CO_CANinterfaceErrorhandler_t" where
  "CO_CANerrorClearListenOnly h =
     h\<lparr>listenOnly := False, timestamp := \<lparr>tv_sec = 0, tv_nsec = 0\<rparr>\<rparr>"

definition CO_CANerrorBusoff ::
  "os_view \<Rightarrow> CO_CANinterfaceErrorhandler_t \<Rightarrow> can_frame \<Rightarrow>
   CO_CANinterfaceState_t \<times> CO_CANinterfaceErrorhandler_t \<times> os_call list" where
  "CO_CANerrorBusoff os h msg =
     (if can_id msg AND CAN_ERR_BUSOFF \<noteq> 0 then CO_CANerrorResetIf os h
      else (CO_INTERFACE_ACTIVE, h, []))"

text \<open>The controller notices are only logged; the second component names the message
  the source would log, the state is always Active.\<close>

datatype crtl_notice =
  CAN_RX_PASSIVE | CAN_TX_PASSIVE | CAN_RX_BUF_OVERFLOW | CAN_TX_BUF_OVERFLOW
  | CAN_RX_LEVEL_WARNING | CAN_TX_LEVEL_WARNING | CAN_TX_LEVEL_ACTIVE

definition CO_CANerrorCrtl ::
  "CO_CANinterfaceErrorhandler_t \<Rightarrow> can_frame \<Rightarrow> CO_CANinterfaceState_t \<times> crtl_notice option" where
  "CO_CANerrorCrtl h msg =
     (CO_INTERFACE_ACTIVE,
      if can_id msg AND CAN_ERR_CRTL \<noteq> 0 then
        (if data_at msg 1 AND CAN_ERR_CRTL_RX_PASSIVE \<noteq> 0 then Some CAN_RX_PASSIVE
         else if data_at msg 1 AND CAN_ERR_CRTL_TX_PASSIVE \<noteq> 0 then Some CAN_TX_PASSIVE
         else if data_at msg 1 AND CAN_ERR_CRTL_RX_OVERFLOW \<noteq> 0 then Some CAN_RX_BUF_OVERFLOW
         else if data_at msg 1 AND CAN_ERR_CRTL_TX_OVERFLOW \<noteq> 0 then Some CAN_TX_BUF_OVERFLOW
         else if data_at msg 1 AND CAN_ERR_CRTL_RX_WARNING \<noteq> 0 then Some CAN_RX_LEVEL_WARNING
         else if data_at msg 1 AND CAN_ERR_CRTL_TX_WARNING \<noteq> 0 then Some CAN_TX_LEVEL_WARNING
         else if data_at msg 1 AND CAN_ERR_CRTL_ACTIVE \<noteq> 0 then Some CAN_TX_LEVEL_ACTIVE
         else None)
      else None)"

definition CO_CANerrorNoack ::
  "os_view \<Rightarrow> CO_CANinterfaceErrorhandler_t \<Rightarrow> can_frame \<Rightarrow>
   CO_CANinterfaceState_t \<times> CO_CANinterfaceErrorhandler_t \<times> os_call list" where
  "CO_CANerrorNoack os h msg =
     (if can_id msg AND CAN_ERR_ACK \<noteq> 0 then
        (let h1 = h\<lparr>noackCounter := noackCounter h + 1\<rparr>
         in if noackCounter h1 > 10 then
              (case CO_CANerrorResetIf os h1 of
                 (result, h2, calls) \<Rightarrow> (result, h2\<lparr>noackCounter := 0\<rparr>, calls))
            else (CO_INTERFACE_ACTIVE, h1, []))
      else (CO_INTERFACE_ACTIVE, h\<lparr>noackCounter := 0\<rparr>, []))"

text \<open>The public functions take a pointer that may be \<^verbatim>\<open>NULL\<close>: \<open>None\<close>.\<close>

definition CO_CANerror_init ::
  "CO_CANinterfaceErrorhandler_t option \<Rightarrow> int \<Rightarrow> string \<Rightarrow>
   CO_CANinterfaceErrorhandler_t option" where
  "CO_CANerror_init hp fd0 ifName0 =
     (case hp of
        None \<Rightarrow> None
      | Some h \<Rightarrow> Some (h\<lparr>fd := fd0, ifName := ifName0, noackCounter := 0,
                          listenOnly := False,
                          timestamp := \<lparr>tv_sec = 0, tv_nsec = 0\<rparr>\<rparr>))"

definition CO_CANerror_rxMsg ::
  "CO_CANinterfaceErrorhandler_t option \<Rightarrow> CO_CANinterfaceErrorhandler_t option" where
  "CO_CANerror_rxMsg hp =
     (case hp of
        None \<Rightarrow> None
      | Some h \<Rightarrow> if listenOnly h = True then Some (CO_CANerrorClearListenOnly h) else Some h)"

definition CO_CANerror_txMsg ::
  "timespec \<Rightarrow> CO_CANinterfaceErrorhandler_t option \<Rightarrow>
   CO_CANinterfaceState_t \<times> CO_CANinterfaceErrorhandler_t option" where
  "CO_CANerror_txMsg now hp =
     (case hp of
        None \<Rightarrow> (CO_INTERFACE_BUS_OFF, None)
      | Some h \<Rightarrow>
          if listenOnly h = True then
            (if sint (tv_sec (timestamp h) + 5) < sint (tv_sec now)
             then (CO_INTERFACE_ACTIVE, Some (CO_CANerrorClearListenOnly h))
             else (CO_INTERFACE_LISTEN_ONLY, Some h))
          else (CO_INTERFACE_ACTIVE, Some h))"

definition CO_CANerror_rxMsgError ::
  "os_view \<Rightarrow> CO_CANinterfaceErrorhandler_t option \<Rightarrow> can_frame \<Rightarrow>
   CO_CANinterfaceState_t \<times> CO_CANinterfaceErrorhandler_t option \<times> os_call list" where
  "CO_CANerror_rxMsgError os hp msg =
     (case hp of
        None \<Rightarrow> (CO_INTERFACE_BUS_OFF, None, [])
      | Some h \<Rightarrow>
          (case CO_CANerrorBusoff os h msg of
             (result, h1, calls1) \<Rightarrow>
               if result \<noteq> CO_INTERFACE_ACTIVE then (result, Some h1, calls1)
               else
                 (case CO_CANerrorCrtl h1 msg of
                    (result, notice) \<Rightarrow>
                      if result \<noteq> CO_INTERFACE_ACTIVE then (result, Some h1, calls1)
                      else
                        (case CO_CANerrorNoack os h1 msg of
                           (result, h2, calls2) \<Rightarrow>
                             if result \<noteq> CO_INTERFACE_ACTIVE
                             then (result, Some h2, calls1 @ calls2)
                             else (CO_INTERFACE_ACTIVE, Some h2, calls1 @ calls2)))))"

text \<open>The receive loop hands the handler one error frame after the other; each call sees
  its own clock reading and socket queue.\<close>

fun feed_rxMsgError ::
  "CO_CANinterfaceErrorhandler_t option \<Rightarrow> (os_view \<times> can_frame) list \<Rightarrow>
   CO_CANinterfaceState_t list \<times> CO_CANinterfaceErrorhandler_t option \<times> os_call list list" where
  "feed_rxMsgError hp [] = ([], hp, [])"
| "feed_rxMsgError hp ((os, msg) # rest) =
     (case CO_CANerror_rxMsgError os hp msg of
        (result, hp1, calls) \<Rightarrow>
          (case feed_rxMsgError hp1 rest of
             (results, hp2, callss) \<Rightarrow> (result # results, hp2, calls # callss)))"

text \<open>The reset action: link down, drop what is queued, link up.\<close>

definition reset_action :: "os_view \<Rightarrow> string \<Rightarrow> os_call list" where
  "reset_action os name =
     [System (snprintf_command (''ip link set '' @ name @ '' down'')),
      Recv_dropped (rx_pending os),
      System (snprintf_command (''ip link set '' @ name @ '' up''))]"

text \<open>Nanoseconds since the clock's origin, and the normal form of a \<^verbatim>\<open>timespec\<close>
  (what \<^verbatim>\<open>clock_gettime\<close> returns): the time elapsed between two readings is the
  difference of their nanosecond counts.\<close>

definition timespec_ns :: "timespec \<Rightarrow> int" where
  "timespec_ns t = sint (tv_sec t) * 1000000000 + sint (tv_nsec t)"

definition timespec_ok :: "timespec \<Rightarrow> bool" where
  "timespec_ok t = (0 \<le> sint (tv_nsec t) \<and> sint (tv_nsec t) < 1000000000)"

subsection \<open>Concrete handlers and frames\<close>

definition can0_handler :: CO_CANinterfaceErrorhandler_t where
  "can0_handler = \<lparr>fd = 3, ifName = ''can0'', noackCounter = 0, listenOnly = False,
     timestamp = \<lparr>tv_sec = 0, tv_nsec = 0\<rparr>\<rparr>"

text \<open>The same interface in listen-only since second 10, five no-ACK frames counted.\<close>

definition can0_listening :: CO_CANinterfaceErrorhandler_t where
  "can0_listening = \<lparr>fd = 3, ifName = ''can0'', noackCounter = 5, listenOnly = True,
     timestamp = \<lparr>tv_sec = 10, tv_nsec = 0\<rparr>\<rparr>"

text \<open>Active, five no-ACK frames counted.\<close>

definition can0_counting :: CO_CANinterfaceErrorhandler_t where
  "can0_counting = \<lparr>fd = 3, ifName = ''can0'', noackCounter = 5, listenOnly = False,
     timestamp = \<lparr>tv_sec = 0, tv_nsec = 0\<rparr>\<rparr>"

definition os_at :: "64 word \<Rightarrow> 64 word \<Rightarrow> os_view" where
  "os_at s ns = \<lparr>clock_monotonic = \<lparr>tv_sec = s, tv_nsec = ns\<rparr>, rx_pending = 2\<rparr>"

definition error_frame :: "32 word \<Rightarrow> can_frame" where
  "error_frame flags = \<lparr>can_id = CAN_ERR_FLAG OR flags, can_dlc = 8, frame_data = replicate 8 0\<rparr>"

definition noack_frames :: "(os_view \<times> can_frame) list" where
  "noack_frames = replicate 11 (os_at 100 0, error_frame CAN_ERR_ACK)"

definition noack_busoff_frames :: "(os_view \<times> can_frame) list" where
  "noack_busoff_frames = replicate 11 (os_at 100 0, error_frame (CAN_ERR_BUSOFF OR CAN_ERR_ACK))"

section \<open>Receive dispatch and transmit (CO\_driver.c)\<close>

datatype CO_ReturnError_t =
  CO_ERROR_NO | CO_ERROR_ILLEGAL_ARGUMENT | CO_ERROR_OUT_OF_MEMORY | CO_ERROR_TIMEOUT
  | CO_ERROR_ILLEGAL_BAUDRATE | CO_ERROR_RX_OVERFLOW | CO_ERROR_RX_PDO_OVERFLOW
  | CO_ERROR_RX_MSG_LENGTH | CO_ERROR_RX_PDO_LENGTH | CO_ERROR_TX_OVERFLOW
  | CO_ERROR_TX_BUSY | CO_ERROR_TX_PDO_WINDOW | CO_ERROR_TX_UNCONFIGURED
  | CO_ERROR_PARAMETERS | CO_ERROR_DATA_CORRUPT | CO_ERROR_CRC
  | CO_ERROR_WRONG_NMT_STATE | CO_ERROR_SYSCALL

text \<open>
  \<^verbatim>\<open>can_state_t\<close>, the result of the transport's \<^verbatim>\<open>can_poll\<close>, \<^verbatim>\<open>can_read\<close> and
  \<^verbatim>\<open>can_write\<close>. The transport's header is not among the sources; the driver names two
  values, every other one is \<open>CAN_ERR_OTHER\<close> with its number.
\<close>

datatype can_state_t = CAN_OK | CAN_ERR_TIMEOUT | CAN_ERR_OTHER nat

text \<open>\<^verbatim>\<open>CO_CANrx_t\<close>. The two pointers are opaque: \<open>None\<close> is \<^verbatim>\<open>NULL\<close>, a number
  names the object or function pointed to.\<close>

record CO_CANrx_t =
  ident :: "32 word"
  mask :: "32 word"
  object :: "nat option"
  pFunct :: "nat option"

text \<open>
  \<^verbatim>\<open>CO_CANmodule_t\<close> with the fields that \<^verbatim>\<open>CO_CANmodule_init\<close> of this driver sets.
  The transmit buffers have the layout of \<^verbatim>\<open>struct can_frame\<close> (the driver casts one
  to the other). The pointers to the emergency object and to the transport are left out:
  what is done through them is returned as a list of effects.
\<close>

record CO_CANmodule_t =
  CANbaseAddress :: int
  rxArray :: "CO_CANrx_t list"
  rxSize :: "16 word"
  txArray :: "can_frame list"
  txSize :: "16 word"
  CANnormal :: bool
  useCANrxFilters :: bool
  firstCANtxMessage :: bool
  CANtxCount :: "16 word"
  errOld :: "32 word"

datatype CO_EM_errorStatusBits_t = CO_EM_RXMSG_OVERFLOW | CO_EM_CAN_TX_OVERFLOW

datatype CO_EM_errorCode_t = CO_EMC_CAN_OVERRUN

text \<open>
  What a call does outside the module: it calls the handler of the receive buffer at an
  index (\<^verbatim>\<open>buffer->pFunct(buffer->object, &frame)\<close>), reports an emergency
  (\<^verbatim>\<open>CO_errorReport\<close>), or hands a frame to the transport (\<^verbatim>\<open>can_write\<close>).
\<close>

datatype driver_effect =
  Handler_call nat nat "nat option" can_frame
  | Error_report CO_EM_errorStatusBits_t CO_EM_errorCode_t can_state_t
  | Can_write can_frame

text \<open>The acceptance test \<^verbatim>\<open>((rx_id ^ buffer->ident) & buffer->mask) == 0U\<close>.\<close>

definition rx_match :: "32 word \<Rightarrow> CO_CANrx_t \<Rightarrow> bool" where
  "rx_match rx_id buffer = (((rx_id XOR ident buffer) AND mask buffer) = 0)"

text \<open>
  The search loop \<^verbatim>\<open>for (i = rxSize; i > 0U; i--) { if (match) { matched = true; break; }
  buffer++; }\<close>: the third argument is \<^verbatim>\<open>i\<close>, the fourth the offset of
  \<^verbatim>\<open>buffer\<close> in the array. The result is \<^verbatim>\<open>matched\<close> and the final offset;
  \<open>None\<close> is a read beyond the end of the array.
\<close>

fun rx_search :: "32 word \<Rightarrow> CO_CANrx_t list \<Rightarrow> nat \<Rightarrow> nat \<Rightarrow> (bool \<times> nat) option" where
  "rx_search rx_id arr 0 k = Some (False, k)"
| "rx_search rx_id arr (Suc i) k =
     (if k < length arr then
        (if rx_match rx_id (arr ! k) then Some (True, k) else rx_search rx_id arr i (Suc k))
      else None)"

text \<open>
  \<^verbatim>\<open>CO_CANrxWait\<close>. The transport's answers are arguments: the state \<^verbatim>\<open>can_poll\<close>
  returns, and the state and frame \<^verbatim>\<open>can_read\<close> returns if it is called. The length
  byte is promoted to 32 bits before it is tested against \<^verbatim>\<open>CAN_EFF_FLAG\<close>.
\<close>

definition CO_CANrxWait ::
  "CO_CANmodule_t option \<Rightarrow> 16 word \<Rightarrow> can_state_t \<Rightarrow> can_state_t \<times> can_frame \<Rightarrow>
   (CO_ReturnError_t \<times> driver_effect list) option" where
  "CO_CANrxWait mp timeout poll rd =
     (case mp of
        None \<Rightarrow> Some (CO_ERROR_ILLEGAL_ARGUMENT, [])
      | Some m \<Rightarrow>
          if poll = CAN_ERR_TIMEOUT then Some (CO_ERROR_TIMEOUT, [])
          else if poll \<noteq> CAN_OK then
            Some (CO_ERROR_RX_OVERFLOW,
                  [Error_report CO_EM_RXMSG_OVERFLOW CO_EMC_CAN_OVERRUN poll])
          else
            (case rd of
               (state, frame) \<Rightarrow>
                 if state \<noteq> CAN_OK then
                   Some (CO_ERROR_RX_OVERFLOW,
                         [Error_report CO_EM_RXMSG_OVERFLOW CO_EMC_CAN_OVERRUN state])
                 else if (ucast (can_dlc frame) :: 32 word) AND CAN_EFF_FLAG \<noteq> 0 then
                   Some (CO_ERROR_NO, [])
                 else if can_id frame AND CAN_ERR_FLAG \<noteq> 0 then
                   Some (CO_ERROR_NO, [])
                 else
                   (let rx_id = can_id frame AND CAN_SFF_MASK
                    in if useCANrxFilters m then Some (CO_ERROR_NO, [])
                       else
                         (case rx_search rx_id (rxArray m) (unat (rxSize m)) 0 of
                            None \<Rightarrow> None
                          | Some (matched, k) \<Rightarrow>
                              if matched then
                                (case pFunct (rxArray m ! k) of
                                   Some pf \<Rightarrow>
                                     Some (CO_ERROR_NO,
                                           [Handler_call k pf (object (rxArray m ! k)) frame])
                                 | None \<Rightarrow> Some (CO_ERROR_NO, []))
                              else Some (CO_ERROR_NO, [])))))"

text \<open>\<^verbatim>\<open>CO_CANsend\<close>; the third argument is the state \<^verbatim>\<open>can_write\<close> returns.\<close>

definition CO_CANsend ::
  "CO_CANmodule_t option \<Rightarrow> can_frame option \<Rightarrow> can_state_t \<Rightarrow>
   CO_ReturnError_t \<times> driver_effect list" where
  "CO_CANsend mp bp state =
     (case (mp, bp) of
        (Some m, Some buffer) \<Rightarrow>
          if state \<noteq> CAN_OK then
            (CO_ERROR_TX_OVERFLOW,
             [Can_write buffer, Error_report CO_EM_CAN_TX_OVERFLOW CO_EMC_CAN_OVERRUN state])
          else (CO_ERROR_NO, [Can_write buffer])
      | _ \<Rightarrow> (CO_ERROR_ILLEGAL_ARGUMENT, []))"

text \<open>What \<^verbatim>\<open>CO_CANrxWait\<close> does once the search has stopped at the buffer with
  offset \<open>k\<close>: it calls that buffer's handler, if there is one.\<close>

definition deliver :: "CO_CANmodule_t \<Rightarrow> nat \<Rightarrow> can_frame \<Rightarrow> driver_effect list" where
  "deliver m k frame =
     (case pFunct (rxArray m ! k) of
        None \<Rightarrow> []
      | Some pf \<Rightarrow> [Handler_call k pf (object (rxArray m ! k)) frame])"

subsection \<open>A concrete module\<close>

text \<open>Two receive buffers as \<^verbatim>\<open>CO_CANrxBufferInit\<close> leaves them for the identifiers
  0x181 and 0x281 with mask 0x7FF and no RTR, and a third one that accepts every
  identifier of the form 0x18x.\<close>

definition rx_A :: CO_CANrx_t where
  "rx_A = \<lparr>ident = 0x181, mask = 0x7FF OR CAN_EFF_FLAG OR CAN_RTR_FLAG,
           object = Some 1, pFunct = Some 11\<rparr>"

definition rx_B :: CO_CANrx_t where
  "rx_B = \<lparr>ident = 0x281, mask = 0x7FF OR CAN_EFF_FLAG OR CAN_RTR_FLAG,
           object = Some 2, pFunct = Some 12\<rparr>"

definition rx_C :: CO_CANrx_t where
  "rx_C = \<lparr>ident = 0x180, mask = 0x7F0 OR CAN_EFF_FLAG OR CAN_RTR_FLAG,
           object = Some 3, pFunct = Some 13\<rparr>"

definition module_ABC :: CO_CANmodule_t where
  "module_ABC = \<lparr>CANbaseAddress = 0, rxArray = [rx_A, rx_B, rx_C], rxSize = 3,
     txArray = [], txSize = 0, CANnormal = True, useCANrxFilters = False,
     firstCANtxMessage = True, CANtxCount = 0, errOld = 0\<rparr>"

definition data_frame :: "32 word \<Rightarrow> can_frame" where
  "data_frame ide = \<lparr>can_id = ide, can_dlc = 8, frame_data = replicate 8 0\<rparr>"

section \<open>The parameter store: object-dictionary callbacks (canopen.cpp)\<close>

text \<open>
  The sources hold two versions of canopen.cpp. Their callbacks differ, so each callback is
  modelled once per version; the suffix names the file it is translated from.
\<close>

datatype CO_SDO_abortCode_t =
  CO_SDO_AB_NONE | CO_SDO_AB_TIMEOUT | CO_SDO_AB_READONLY | CO_SDO_AB_SUB_UNKNOWN
  | CO_SDO_AB_HW | CO_SDO_AB_INVALID_VALUE | CO_SDO_AB_GENERAL | CO_SDO_AB_DATA_TRANSF
  | CO_SDO_AB_DATA_DEV_STATE

datatype storage_type_t = COMMUNICATION | PARAMS | RUNTIME | SERIAL | TEST | CALIB

text \<open>
  \<^verbatim>\<open>CO_ODF_arg_t\<close>, the argument of an object-dictionary callback, with the fields the
  callbacks use. \<open>data\<close> is the buffer behind \<^verbatim>\<open>uint8_t *data\<close>, the value being
  written; \<open>ODdataStorage\<close> is the memory behind \<^verbatim>\<open>const void *ODdataStorage\<close>, the
  value the dictionary holds, or \<open>None\<close> for \<^verbatim>\<open>NULL\<close>.
\<close>

record CO_ODF_arg_t =
  reading :: bool
  subIndex :: "8 word"
  data :: "8 word list"
  ODdataStorage :: "8 word list option"
  dataLength :: "16 word"

text \<open>
  The sub-indices of the objects 0x1010, 0x1011 and 0x5000. The generated header CO\_OD.h
  is not among the sources; each constant carries its sub-index in its name.
\<close>

definition OD_1010_0_storeParameters_maxSubIndex :: "8 word" where
  "OD_1010_0_storeParameters_maxSubIndex = 0"
definition OD_1010_1_storeParameters_saveAllParameters :: "8 word" where
  "OD_1010_1_storeParameters_saveAllParameters = 1"
definition OD_1010_2_storeParameters_saveCommunicationRelatedParameters :: "8 word" where
  "OD_1010_2_storeParameters_saveCommunicationRelatedParameters = 2"
definition OD_1010_3_storeParameters_saveApplicationRelatedParameters :: "8 word" where
  "OD_1010_3_storeParameters_saveApplicationRelatedParameters = 3"
definition OD_1010_4_storeParameters_saveRuntime :: "8 word" where
  "OD_1010_4_storeParameters_saveRuntime = 4"
definition OD_1010_5_storeParameters_saveSerialNumber :: "8 word" where
  "OD_1010_5_storeParameters_saveSerialNumber = 5"
definition OD_1010_6_storeParameters_saveTestData :: "8 word" where
  "OD_1010_6_storeParameters_saveTestData = 6"
definition OD_1010_7_storeParameters_saveCalibrationData :: "8 word" where
  "OD_1010_7_storeParameters_saveCalibrationData = 7"

definition OD_1011_0_restoreDefaultParameters_maxSubIndex :: "8 word" where
  "OD_1011_0_restoreDefaultParameters_maxSubIndex = 0"
definition OD_1011_1_restoreDefaultParameters_restoreAllDefaultParameters :: "8 word" where
  "OD_1011_1_restoreDefaultParameters_restoreAllDefaultParameters = 1"
definition OD_1011_2_restoreDefaultParameters_restoreCommunicationRelatedParameters :: "8 word" where
  "OD_1011_2_restoreDefaultParameters_restoreCommunicationRelatedParameters = 2"
definition OD_1011_3_restoreDefaultParameters_restoreApplicationRelatedParameters :: "8 word" where
  "OD_1011_3_restoreDefaultParameters_restoreApplicationRelatedParameters = 3"
definition OD_1011_4_restoreDefaultParameters_restoreRuntime :: "8 word" where
  "OD_1011_4_restoreDefaultParameters_restoreRuntime = 4"
definition OD_1011_5_restoreDefaultParameters_restoreSerialNumber :: "8 word" where
  "OD_1011_5_restoreDefaultParameters_restoreSerialNumber = 5"
definition OD_1011_6_restoreDefaultParameters_restoreTestData :: "8 word" where
  "OD_1011_6_restoreDefaultParameters_restoreTestData = 6"
definition OD_1011_7_restoreDefaultParameters_restoreCalibrationData :: "8 word" where
  "OD_1011_7_restoreDefaultParameters_restoreCalibrationData = 7"

definition OD_5000_0_serialNumber_maxSubIndex :: "8 word" where
  "OD_5000_0_serialNumber_maxSubIndex = 0"
definition OD_5000_1_serialNumber_valid :: "8 word" where
  "OD_5000_1_serialNumber_valid = 1"
definition OD_5000_2_serialNumber_serial :: "8 word" where
  "OD_5000_2_serialNumber_serial = 2"

text \<open>
  What the callbacks read and write outside their argument: the serial-number record
  \<^verbatim>\<open>OD_serialNumber\<close> (validity flag and serial number; the width of the number is
  declared in CO\_OD.h, 64 bits are taken here, and after the modulus below the value fits
  32 bits either way), the identity object's serial number, and the calls made to the
  storage, in order.
\<close>

datatype storage_call = Save storage_type_t | Restore storage_type_t

record canopen_t =
  OD_serialNumber_valid :: bool
  OD_serialNumber_serial :: "64 word"
  OD_identity_serialNumber :: "32 word"
  storage_calls :: "storage_call list"

text \<open>
  Modelled from the spec: \<^verbatim>\<open>Canopen_storage::save\<close> and
  \<^verbatim>\<open>Canopen_storage::restore\<close> are not among the sources. \<open>save(group)\<close> gives a
  result, success or a storage error, and \<open>restore(group)\<close> schedules the defaults for
  the next load and never changes live memory. The result of a save is what the storage
  answers for that group (the first argument); both record the call and leave the live
  values alone.
\<close>

definition storage_save ::
  "(storage_type_t \<Rightarrow> CO_ReturnError_t) \<Rightarrow> storage_type_t \<Rightarrow> canopen_t \<Rightarrow>
   CO_ReturnError_t \<times> canopen_t" where
  "storage_save sv type s = (sv type, s\<lparr>storage_calls := storage_calls s @ [Save type]\<rparr>)"

definition storage_restore :: "storage_type_t \<Rightarrow> canopen_t \<Rightarrow> canopen_t" where
  "storage_restore type s = s\<lparr>storage_calls := storage_calls s @ [Restore type]\<rparr>"

subsection \<open>Memory access\<close>

text \<open>
  \<^verbatim>\<open>*reinterpret_cast<u32*>(p)\<close> read and written on a little-endian target (the
  code runs on an STM32), and \<^verbatim>\<open>memcpy\<close>. \<open>None\<close> is an access beyond the memory
  behind the pointer.
\<close>

definition load_u32 :: "8 word list \<Rightarrow> 32 word option" where
  "load_u32 bs =
     (if length bs < 4 then None
      else Some (ucast (bs ! 0) OR push_bit 8 (ucast (bs ! 1))
                 OR push_bit 16 (ucast (bs ! 2)) OR push_bit 24 (ucast (bs ! 3))))"

definition store_u32 :: "32 word \<Rightarrow> 8 word list \<Rightarrow> 8 word list option" where
  "store_u32 w bs =
     (if length bs < 4 then None
      else Some ([ucast w, ucast (drop_bit 8 w), ucast (drop_bit 16 w), ucast (drop_bit 24 w)]
                 @ drop 4 bs))"

definition memcpy :: "8 word list \<Rightarrow> 8 word list option \<Rightarrow> nat \<Rightarrow> 8 word list option" where
  "memcpy dst src n =
     (case src of
        None \<Rightarrow> None
      | Some bs \<Rightarrow> if n \<le> length bs \<and> n \<le> length dst then Some (take n bs @ drop n dst)
                   else None)"

text \<open>\<^verbatim>\<open>*p_data = *(reinterpret_cast<const u32*>(p_odf_arg->ODdataStorage))\<close>, the
  statement commented "Originalwert wieder herstellen" in both callbacks.\<close>

definition restore_original :: "CO_ODF_arg_t \<Rightarrow> CO_ODF_arg_t option" where
  "restore_original a =
     (case ODdataStorage a of
        None \<Rightarrow> None
      | Some st \<Rightarrow>
          (case load_u32 st of
             None \<Rightarrow> None
           | Some original \<Rightarrow>
               (case store_u32 original (data a) of
                  None \<Rightarrow> None
                | Some d \<Rightarrow> Some (a\<lparr>data := d\<rparr>))))"

subsection \<open>0x1010, store parameters\<close>

text \<open>The tail of the callback: \<^verbatim>\<open>result = storage.save(type)\<close>, a hardware abort if
  it fails.\<close>

definition save_one ::
  "(storage_type_t \<Rightarrow> CO_ReturnError_t) \<Rightarrow> storage_type_t \<Rightarrow> CO_ODF_arg_t \<Rightarrow> canopen_t \<Rightarrow>
   CO_SDO_abortCode_t \<times> CO_ODF_arg_t \<times> canopen_t" where
  "save_one sv type a s =
     (case storage_save sv type s of
        (result, s1) \<Rightarrow>
          if result \<noteq> CO_ERROR_NO then (CO_SDO_AB_HW, a, s1) else (CO_SDO_AB_NONE, a, s1))"

text \<open>The case "save all parameters": three saves, the first failure ends the call.\<close>

definition save_all ::
  "(storage_type_t \<Rightarrow> CO_ReturnError_t) \<Rightarrow> CO_ODF_arg_t \<Rightarrow> canopen_t \<Rightarrow>
   CO_SDO_abortCode_t \<times> CO_ODF_arg_t \<times> canopen_t" where
  "save_all sv a s =
     (case storage_save sv PARAMS s of
        (result, s1) \<Rightarrow>
          if result \<noteq> CO_ERROR_NO then (CO_SDO_AB_HW, a, s1)
          else
            (case storage_save sv TEST s1 of
               (result, s2) \<Rightarrow>
                 if result \<noteq> CO_ERROR_NO then (CO_SDO_AB_HW, a, s2)
                 else
                   (case storage_save sv CALIB s2 of
                      (result, s3) \<Rightarrow>
                        if result \<noteq> CO_ERROR_NO then (CO_SDO_AB_HW, a, s3)
                        else (CO_SDO_AB_NONE, a, s3))))"

definition store_parameters_callback_part_000 ::
  "(storage_type_t \<Rightarrow> CO_ReturnError_t) \<Rightarrow> canopen_t \<Rightarrow> CO_ODF_arg_t \<Rightarrow>
   (CO_SDO_abortCode_t \<times> CO_ODF_arg_t \<times> canopen_t) option" where
  "store_parameters_callback_part_000 sv s a =
     (if reading a = True then Some (CO_SDO_AB_NONE, a, s)
      else
        (case load_u32 (data a) of
           None \<Rightarrow> None
         | Some signature \<Rightarrow>
             (case restore_original a of
                None \<Rightarrow> None
              | Some a1 \<Rightarrow>
                  if subIndex a1 = OD_1010_2_storeParameters_saveCommunicationRelatedParameters
                     \<or> subIndex a1 = OD_1010_4_storeParameters_saveRuntime
                  then Some (CO_SDO_AB_DATA_TRANSF, a1, s)
                  else if signature \<noteq> 0x65766173 then Some (CO_SDO_AB_DATA_TRANSF, a1, s)
                  else if subIndex a1 = OD_1010_1_storeParameters_saveAllParameters
                  then Some (save_all sv a1 s)
                  else if subIndex a1 = OD_1010_3_storeParameters_saveApplicationRelatedParameters
                  then Some (save_one sv PARAMS a1 s)
                  else if subIndex a1 = OD_1010_5_storeParameters_saveSerialNumber
                  then
                    (if OD_serialNumber_valid s \<noteq> False
                     then Some (CO_SDO_AB_DATA_TRANSF, a1, s)
                     else
                       (let s1 = s\<lparr>OD_serialNumber_valid := True\<rparr>;
                            s2 = s1\<lparr>OD_identity_serialNumber :=
                                       ucast (OD_serialNumber_serial s1 mod 100000000)\<rparr>
                        in Some (save_one sv SERIAL a1 s2)))
                  else if subIndex a1 = OD_1010_6_storeParameters_saveTestData
                  then Some (save_one sv TEST a1 s)
                  else if subIndex a1 = OD_1010_7_storeParameters_saveCalibrationData
                  then Some (save_one sv CALIB a1 s)
                  else Some (CO_SDO_AB_SUB_UNKNOWN, a1, s))))"

definition store_parameters_callback_part_001 ::
  "(storage_type_t \<Rightarrow> CO_ReturnError_t) \<Rightarrow> canopen_t \<Rightarrow> CO_ODF_arg_t \<Rightarrow>
   (CO_SDO_abortCode_t \<times> CO_ODF_arg_t \<times> canopen_t) option" where
  "store_parameters_callback_part_001 sv s a =
     (if reading a = True then Some (CO_SDO_AB_NONE, a, s)
      else
        (case load_u32 (data a) of
           None \<Rightarrow> None
         | Some signature \<Rightarrow>
             (case restore_original a of
                None \<Rightarrow> None
              | Some a1 \<Rightarrow>
                  if subIndex a1 = OD_1010_0_storeParameters_maxSubIndex
                  then Some (CO_SDO_AB_NONE, a1, s)
                  else if subIndex a1 = OD_1010_2_storeParameters_saveCommunicationRelatedParameters
                          \<or> subIndex a1 = OD_1010_4_storeParameters_saveRuntime
                  then Some (CO_SDO_AB_INVALID_VALUE, a1, s)
                  else if signature \<noteq> 0x65766173 then Some (CO_SDO_AB_DATA_TRANSF, a1, s)
                  else if subIndex a1 = OD_1010_1_storeParameters_saveAllParameters
                  then Some (save_all sv a1 s)
                  else if subIndex a1 = OD_1010_3_storeParameters_saveApplicationRelatedParameters
                  then Some (save_one sv PARAMS a1 s)
                  else if subIndex a1 = OD_1010_5_storeParameters_saveSerialNumber
                  then
                    (if OD_serialNumber_valid s \<noteq> False
                     then Some (CO_SDO_AB_INVALID_VALUE, a1, s)
                     else Some (save_one sv SERIAL a1 s))
                  else if subIndex a1 = OD_1010_6_storeParameters_saveTestData
                  then Some (save_one sv TEST a1 s)
                  else if subIndex a1 = OD_1010_7_storeParameters_saveCalibrationData
                  then Some (save_one sv CALIB a1 s)
                  else Some (CO_SDO_AB_SUB_UNKNOWN, a1, s))))"

subsection \<open>0x1011, restore default parameters\<close>

definition restore_default_parameters_callback_part_000 ::
  "canopen_t \<Rightarrow> CO_ODF_arg_t \<Rightarrow> (CO_SDO_abortCode_t \<times> CO_ODF_arg_t \<times> canopen_t) option" where
  "restore_default_parameters_callback_part_000 s a =
     (if reading a = True then Some (CO_SDO_AB_NONE, a, s)
      else
        (case load_u32 (data a) of
           None \<Rightarrow> None
         | Some signature \<Rightarrow>
             (case restore_original a of
                None \<Rightarrow> None
              | Some a1 \<Rightarrow>
                  if subIndex a1 = OD_1011_1_restoreDefaultParameters_restoreAllDefaultParameters
                     \<or> subIndex a1 =
                         OD_1011_3_restoreDefaultParameters_restoreApplicationRelatedParameters
                  then
                    (if signature \<noteq> 0x64616F6C then Some (CO_SDO_AB_DATA_TRANSF, a1, s)
                     else Some (CO_SDO_AB_NONE, a1, storage_restore PARAMS s))
                  else if subIndex a1 =
                            OD_1011_2_restoreDefaultParameters_restoreCommunicationRelatedParameters
                          \<or> subIndex a1 = OD_1011_4_restoreDefaultParameters_restoreRuntime
                          \<or> subIndex a1 = OD_1011_5_restoreDefaultParameters_restoreSerialNumber
                          \<or> subIndex a1 = OD_1011_6_restoreDefaultParameters_restoreTestData
                          \<or> subIndex a1 = OD_1011_7_restoreDefaultParameters_restoreCalibrationData
                  then Some (CO_SDO_AB_DATA_TRANSF, a1, s)
                  else Some (CO_SDO_AB_SUB_UNKNOWN, a1, s))))"

definition restore_default_parameters_callback_part_001 ::
  "canopen_t \<Rightarrow> CO_ODF_arg_t \<Rightarrow> (CO_SDO_abortCode_t \<times> CO_ODF_arg_t \<times> canopen_t) option" where
  "restore_default_parameters_callback_part_001 s a =
     (if reading a = True then Some (CO_SDO_AB_NONE, a, s)
      else
        (case load_u32 (data a) of
           None \<Rightarrow> None
         | Some signature \<Rightarrow>
             (case restore_original a of
                None \<Rightarrow> None
              | Some a1 \<Rightarrow>
                  if subIndex a1 = OD_1011_0_restoreDefaultParameters_maxSubIndex
                  then Some (CO_SDO_AB_NONE, a1, s)
                  else if subIndex a1 =
                            OD_1011_1_restoreDefaultParameters_restoreAllDefaultParameters
                          \<or> subIndex a1 =
                              OD_1011_3_restoreDefaultParameters_restoreApplicationRelatedParameters
                  then
                    (if signature \<noteq> 0x64616F6C then Some (CO_SDO_AB_DATA_TRANSF, a1, s)
                     else Some (CO_SDO_AB_NONE, a1, storage_restore PARAMS s))
                  else if subIndex a1 =
                            OD_1011_2_restoreDefaultParameters_restoreCommunicationRelatedParameters
                          \<or> subIndex a1 = OD_1011_4_restoreDefaultParameters_restoreRuntime
                          \<or> subIndex a1 = OD_1011_5_restoreDefaultParameters_restoreSerialNumber
                          \<or> subIndex a1 = OD_1011_6_restoreDefaultParameters_restoreTestData
                          \<or> subIndex a1 = OD_1011_7_restoreDefaultParameters_restoreCalibrationData
                  then Some (CO_SDO_AB_INVALID_VALUE, a1, s)
                  else Some (CO_SDO_AB_SUB_UNKNOWN, a1, s))))"

subsection \<open>0x5000, serial number\<close>

text \<open>In part\_000 the callback reads the validity flag of the serial-number record.\<close>

definition serial_number_callback_part_000 ::
  "canopen_t \<Rightarrow> CO_ODF_arg_t \<Rightarrow> (CO_SDO_abortCode_t \<times> CO_ODF_arg_t \<times> canopen_t) option" where
  "serial_number_callback_part_000 s a =
     (if reading a = True then Some (CO_SDO_AB_NONE, a, s)
      else if subIndex a = OD_5000_2_serialNumber_serial then
        (if OD_serialNumber_valid s = True then
           (case memcpy (data a) (ODdataStorage a) (unat (dataLength a)) of
              None \<Rightarrow> None
            | Some d \<Rightarrow> Some (CO_SDO_AB_READONLY, a\<lparr>data := d\<rparr>, s))
         else Some (CO_SDO_AB_NONE, a, s))
      else Some (CO_SDO_AB_SUB_UNKNOWN, a, s))"

text \<open>
  In part\_001 the flag is \<^verbatim>\<open>static_cast<bool>(p_odf_arg->ODdataStorage)\<close>: the
  conversion of the pointer itself, true exactly when the pointer is not \<^verbatim>\<open>NULL\<close>.
  \<^verbatim>\<open>*(p_odf_arg->data) = true\<close> writes the first byte of the buffer.
\<close>

definition serial_number_callback_part_001 ::
  "canopen_t \<Rightarrow> CO_ODF_arg_t \<Rightarrow> (CO_SDO_abortCode_t \<times> CO_ODF_arg_t \<times> canopen_t) option" where
  "serial_number_callback_part_001 s a =
     (if reading a = True then Some (CO_SDO_AB_NONE, a, s)
      else
        (let valid = (ODdataStorage a \<noteq> None)
         in if subIndex a = OD_5000_0_serialNumber_maxSubIndex then Some (CO_SDO_AB_NONE, a, s)
            else if subIndex a = OD_5000_1_serialNumber_valid then
              (if valid = True then
                 (if data a = [] then None
                  else Some (CO_SDO_AB_READONLY, a\<lparr>data := (data a)[0 := 1]\<rparr>, s))
               else Some (CO_SDO_AB_NONE, a, s))
            else if subIndex a = OD_5000_2_serialNumber_serial then
              (if valid = True then
                 (case memcpy (data a) (ODdataStorage a) (unat (dataLength a)) of
                    None \<Rightarrow> None
                  | Some d \<Rightarrow> Some (CO_SDO_AB_READONLY, a\<lparr>data := d\<rparr>, s))
               else Some (CO_SDO_AB_NONE, a, s))
            else Some (CO_SDO_AB_SUB_UNKNOWN, a, s)))"

subsection \<open>Concrete writes\<close>

text \<open>The bytes of the signature "save" (0x65766173), of the signature "load"
  (0x64616F6C), and of the value 1 that the dictionary holds in a sub-index of 0x1010.\<close>

definition save_bytes :: "8 word list" where "save_bytes = [0x73, 0x61, 0x76, 0x65]"
definition load_bytes :: "8 word list" where "load_bytes = [0x6C, 0x6F, 0x61, 0x64]"
definition stored_bytes :: "8 word list" where "stored_bytes = [0x01, 0x00, 0x00, 0x00]"

definition write_arg :: "8 word \<Rightarrow> 8 word list \<Rightarrow> CO_ODF_arg_t" where
  "write_arg sub bytes = \<lparr>reading = False, subIndex = sub, data = bytes,
     ODdataStorage = Some stored_bytes, dataLength = 4\<rparr>"

definition storage_ok :: "storage_type_t \<Rightarrow> CO_ReturnError_t" where
  "storage_ok type = CO_ERROR_NO"

definition fresh_device :: canopen_t where
  "fresh_device = \<lparr>OD_serialNumber_valid = False, OD_serialNumber_serial = 1812345678,
     OD_identity_serialNumber = 0, storage_calls = []\<rparr>"

section \<open>Properties of the fault recovery\<close>

lemma drop_msgs_count: "drop_msgs n i = n + i"
  by (induction n arbitrary: i) simp_all

lemma CO_CANerrorResetIf_eq:
  "CO_CANerrorResetIf os h =
     (CO_INTERFACE_LISTEN_ONLY, h\<lparr>timestamp := clock_monotonic os, listenOnly := True\<rparr>,
      reset_action os (ifName h))"
  by (simp add: CO_CANerrorResetIf_def reset_action_def drop_msgs_count Let_def)

lemma rxMsgError_busoff:
  assumes "can_id msg AND CAN_ERR_BUSOFF \<noteq> 0"
  shows "CO_CANerror_rxMsgError os (Some h) msg =
     (CO_INTERFACE_LISTEN_ONLY, Some (h\<lparr>timestamp := clock_monotonic os, listenOnly := True\<rparr>),
      reset_action os (ifName h))"
  using assms
  by (simp add: CO_CANerror_rxMsgError_def CO_CANerrorBusoff_def CO_CANerrorResetIf_eq)

lemma rxMsgError_no_busoff:
  assumes "can_id msg AND CAN_ERR_BUSOFF = 0"
  shows "CO_CANerror_rxMsgError os (Some h) msg =
     (case CO_CANerrorNoack os h msg of (r, h2, calls) \<Rightarrow> (r, Some h2, calls))"
  using assms
  by (simp add: CO_CANerror_rxMsgError_def CO_CANerrorBusoff_def CO_CANerrorCrtl_def
      split: prod.splits)

lemma noack_below:
  assumes "can_id msg AND CAN_ERR_ACK \<noteq> 0" "unat (noackCounter h) < 10"
  shows "CO_CANerrorNoack os h msg =
     (CO_INTERFACE_ACTIVE, h\<lparr>noackCounter := noackCounter h + 1\<rparr>, [])"
proof -
  have "unat (noackCounter h + 1) = unat (noackCounter h) + 1"
    using assms(2) by (simp add: unat_word_ariths)
  hence "\<not> noackCounter h + 1 > 10"
    using assms(2) by (simp add: word_less_nat_alt)
  thus ?thesis using assms(1) by (simp add: CO_CANerrorNoack_def Let_def)
qed

lemma noack_at_threshold:
  assumes "can_id msg AND CAN_ERR_ACK \<noteq> 0" "noackCounter h = 10"
  shows "CO_CANerrorNoack os h msg =
    (CO_INTERFACE_LISTEN_ONLY,
     h\<lparr>noackCounter := 0, timestamp := clock_monotonic os, listenOnly := True\<rparr>,
     reset_action os (ifName h))"
  using assms by (simp add: CO_CANerrorNoack_def Let_def CO_CANerrorResetIf_eq)

lemma error_frame_flags:
  "can_id (error_frame CAN_ERR_BUSOFF) AND CAN_ERR_BUSOFF \<noteq> 0"
  "can_id (error_frame CAN_ERR_BUSOFF) AND CAN_ERR_ACK = 0"
  "can_id (error_frame CAN_ERR_ACK) AND CAN_ERR_ACK \<noteq> 0"
  "can_id (error_frame CAN_ERR_ACK) AND CAN_ERR_BUSOFF = 0"
  "can_id (error_frame CAN_ERR_CRTL) AND CAN_ERR_ACK = 0"
  "can_id (error_frame CAN_ERR_CRTL) AND CAN_ERR_BUSOFF = 0"
  "can_id (error_frame (CAN_ERR_BUSOFF OR CAN_ERR_ACK)) AND CAN_ERR_BUSOFF \<noteq> 0"
  "can_id (error_frame (CAN_ERR_BUSOFF OR CAN_ERR_ACK)) AND CAN_ERR_ACK \<noteq> 0"
  by (simp_all add: error_frame_def CAN_ERR_FLAG_def CAN_ERR_BUSOFF_def CAN_ERR_ACK_def
      CAN_ERR_CRTL_def)

text \<open>
  C1. From any handler that is Active (not listen-only), one error frame with the bus-off
  flag performs the reset action (link down, queue dropped, link up), records the clock
  and leaves the handler listen-only, all in that one call, which reports ListenOnly. From
  any listen-only handler, a successfully received frame (\<open>CO_CANerror_rxMsg\<close>) clears
  listen-only; in particular it does so right after the bus-off frame.
\<close>

theorem busoff_enters_listen_only_and_receive_leaves:
  assumes active: "listenOnly h = False"
    and busoff: "can_id msg AND CAN_ERR_BUSOFF \<noteq> 0"
    and listening: "listenOnly h' = True"
  shows "CO_CANerror_rxMsgError os (Some h) msg =
           (CO_INTERFACE_LISTEN_ONLY,
            Some (h\<lparr>timestamp := clock_monotonic os, listenOnly := True\<rparr>),
            reset_action os (ifName h))
       \<and> CO_CANerror_rxMsg (Some h') =
           Some (h'\<lparr>listenOnly := False, timestamp := \<lparr>tv_sec = 0, tv_nsec = 0\<rparr>\<rparr>)
       \<and> CO_CANerror_rxMsg (fst (snd (CO_CANerror_rxMsgError os (Some h) msg))) =
           Some (h\<lparr>timestamp := \<lparr>tv_sec = 0, tv_nsec = 0\<rparr>, listenOnly := False\<rparr>)"
  using listening
  by (simp add: rxMsgError_busoff [OF busoff] CO_CANerror_rxMsg_def
      CO_CANerrorClearListenOnly_def)

theorem busoff_enters_listen_only_and_receive_leaves_witness:
  "listenOnly can0_handler = False
   \<and> can_id (error_frame CAN_ERR_BUSOFF) AND CAN_ERR_BUSOFF \<noteq> 0
   \<and> listenOnly can0_listening = True
   \<and> CO_CANerror_rxMsgError (os_at 100 0) (Some can0_handler) (error_frame CAN_ERR_BUSOFF) =
       (CO_INTERFACE_LISTEN_ONLY,
        Some (can0_handler\<lparr>timestamp := \<lparr>tv_sec = 100, tv_nsec = 0\<rparr>, listenOnly := True\<rparr>),
        [System ''ip link set can0 down'', Recv_dropped 2, System ''ip link set can0 up''])
   \<and> CO_CANerror_rxMsg (Some can0_listening) =
       Some (can0_listening\<lparr>listenOnly := False, timestamp := \<lparr>tv_sec = 0, tv_nsec = 0\<rparr>\<rparr>)"
proof -
  have a: "listenOnly can0_handler = False" by (simp add: can0_handler_def)
  have l: "listenOnly can0_listening = True" by (simp add: can0_listening_def)
  show ?thesis
    using busoff_enters_listen_only_and_receive_leaves
            [OF a error_frame_flags(1) l, of "os_at 100 0"]
    by (simp add: a l error_frame_flags(1) reset_action_def snprintf_command_def os_at_def
        can0_handler_def)
qed

lemma feed_append:
  "feed_rxMsgError hp (xs @ ys) =
     (case feed_rxMsgError hp xs of
        (r1, hp1, c1) \<Rightarrow>
          (case feed_rxMsgError hp1 ys of (r2, hp2, c2) \<Rightarrow> (r1 @ r2, hp2, c1 @ c2)))"
  by (induction xs arbitrary: hp) (auto split: prod.splits)

lemma feed_noack_below:
  assumes "\<forall>x\<in>set xs. can_id (snd x) AND CAN_ERR_ACK \<noteq> 0
                    \<and> can_id (snd x) AND CAN_ERR_BUSOFF = 0"
    and "unat (noackCounter h) + length xs \<le> 10"
  shows "feed_rxMsgError (Some h) xs =
     (replicate (length xs) CO_INTERFACE_ACTIVE,
      Some (h\<lparr>noackCounter := noackCounter h + of_nat (length xs)\<rparr>),
      replicate (length xs) [])"
  using assms
proof (induction xs arbitrary: h)
  case Nil
  then show ?case by simp
next
  case (Cons x xs)
  obtain os msg where x: "x = (os, msg)" by (cases x)
  from Cons.prems x have ack: "can_id msg AND CAN_ERR_ACK \<noteq> 0"
    and nobo: "can_id msg AND CAN_ERR_BUSOFF = 0" by simp_all
  from Cons.prems have lt: "unat (noackCounter h) < 10" by simp
  let ?h1 = "h\<lparr>noackCounter := noackCounter h + 1\<rparr>"
  have step: "CO_CANerror_rxMsgError os (Some h) msg = (CO_INTERFACE_ACTIVE, Some ?h1, [])"
    by (simp add: rxMsgError_no_busoff [OF nobo] noack_below [OF ack lt])
  have u1: "unat (noackCounter ?h1) = unat (noackCounter h) + 1"
    using lt by (simp add: unat_word_ariths)
  have rest: "feed_rxMsgError (Some ?h1) xs =
     (replicate (length xs) CO_INTERFACE_ACTIVE,
      Some (?h1\<lparr>noackCounter := noackCounter ?h1 + of_nat (length xs)\<rparr>),
      replicate (length xs) [])"
    using Cons.prems u1 by (intro Cons.IH) simp_all
  show ?case
    by (simp add: x step rest add.assoc)
qed

text \<open>
  C2, as amended. From a handler that is Active with the counter at zero, eleven error
  frames in a row that carry the no-ACK flag and not the bus-off flag give: ten calls that
  report Active and do nothing to the interface, then, on the eleventh, one reset action
  and ListenOnly. Exactly one of the eleven calls reports the transition.
\<close>

theorem eleven_noack_frames_one_reset:
  assumes len: "length xs = 11"
    and flags: "\<forall>x\<in>set xs. can_id (snd x) AND CAN_ERR_ACK \<noteq> 0
                         \<and> can_id (snd x) AND CAN_ERR_BUSOFF = 0"
    and c0: "noackCounter h = 0"
    and active: "listenOnly h = False"
  shows "feed_rxMsgError (Some h) xs =
     (replicate 10 CO_INTERFACE_ACTIVE @ [CO_INTERFACE_LISTEN_ONLY],
      Some (h\<lparr>timestamp := clock_monotonic (fst (xs ! 10)), listenOnly := True\<rparr>),
      replicate 10 [] @ [reset_action (fst (xs ! 10)) (ifName h)])
    \<and> count_list (fst (feed_rxMsgError (Some h) xs)) CO_INTERFACE_LISTEN_ONLY = 1"
proof -
  obtain os msg where last: "xs ! 10 = (os, msg)" by (cases "xs ! 10")
  have d: "drop 10 xs = [xs ! 10]"
    using Cons_nth_drop_Suc [of 10 xs] len by simp
  have split: "xs = take 10 xs @ [(os, msg)]"
    using append_take_drop_id [of 10 xs] d last by simp
  have "xs ! 10 \<in> set xs"
    using len by (intro nth_mem) simp
  hence in_set: "(os, msg) \<in> set xs"
    using last by simp
  hence ack: "can_id msg AND CAN_ERR_ACK \<noteq> 0" and nobo: "can_id msg AND CAN_ERR_BUSOFF = 0"
    using flags by auto
  let ?h10 = "h\<lparr>noackCounter := 10\<rparr>"
  have "\<forall>x\<in>set (take 10 xs). can_id (snd x) AND CAN_ERR_ACK \<noteq> 0
                              \<and> can_id (snd x) AND CAN_ERR_BUSOFF = 0"
    using flags by (meson in_set_takeD)
  moreover have "unat (noackCounter h) + length (take 10 xs) \<le> 10"
    using len c0 by simp
  ultimately have first10: "feed_rxMsgError (Some h) (take 10 xs) =
     (replicate 10 CO_INTERFACE_ACTIVE, Some ?h10, replicate 10 [])"
    using feed_noack_below [of "take 10 xs" h] len c0 by simp
  have step11: "CO_CANerror_rxMsgError os (Some ?h10) msg =
     (CO_INTERFACE_LISTEN_ONLY,
      Some (h\<lparr>timestamp := clock_monotonic os, listenOnly := True\<rparr>),
      reset_action os (ifName h))"
    using c0 by (simp add: rxMsgError_no_busoff [OF nobo] noack_at_threshold [OF ack])
  have run: "feed_rxMsgError (Some h) (take 10 xs @ [(os, msg)]) =
     (replicate 10 CO_INTERFACE_ACTIVE @ [CO_INTERFACE_LISTEN_ONLY],
      Some (h\<lparr>timestamp := clock_monotonic os, listenOnly := True\<rparr>),
      replicate 10 [] @ [reset_action os (ifName h)])"
    by (simp add: feed_append first10 step11)
  have run': "feed_rxMsgError (Some h) xs =
     (replicate 10 CO_INTERFACE_ACTIVE @ [CO_INTERFACE_LISTEN_ONLY],
      Some (h\<lparr>timestamp := clock_monotonic os, listenOnly := True\<rparr>),
      replicate 10 [] @ [reset_action os (ifName h)])"
    using run split by simp
  have cnt: "count_list (replicate 10 CO_INTERFACE_ACTIVE @ [CO_INTERFACE_LISTEN_ONLY])
      CO_INTERFACE_LISTEN_ONLY = 1"
    by (simp add: numeral_eq_Suc)
  show ?thesis
    using run' cnt last by simp
qed

theorem eleven_noack_frames_one_reset_witness:
  "length noack_frames = 11
   \<and> noack_frames = replicate 11 (os_at 100 0, error_frame CAN_ERR_ACK)
   \<and> can_id (error_frame CAN_ERR_ACK) AND CAN_ERR_ACK \<noteq> 0
   \<and> can_id (error_frame CAN_ERR_ACK) AND CAN_ERR_BUSOFF = 0
   \<and> noackCounter can0_handler = 0 \<and> listenOnly can0_handler = False
   \<and> feed_rxMsgError (Some can0_handler) noack_frames =
       (replicate 10 CO_INTERFACE_ACTIVE @ [CO_INTERFACE_LISTEN_ONLY],
        Some (can0_handler\<lparr>timestamp := \<lparr>tv_sec = 100, tv_nsec = 0\<rparr>, listenOnly := True\<rparr>),
        replicate 10 [] @
          [[System ''ip link set can0 down'', Recv_dropped 2, System ''ip link set can0 up'']])
   \<and> count_list (fst (feed_rxMsgError (Some can0_handler) noack_frames))
        CO_INTERFACE_LISTEN_ONLY = 1"
proof -
  have len: "length noack_frames = 11" by (simp add: noack_frames_def)
  have flags: "\<forall>x\<in>set noack_frames. can_id (snd x) AND CAN_ERR_ACK \<noteq> 0
                                  \<and> can_id (snd x) AND CAN_ERR_BUSOFF = 0"
    by (simp add: noack_frames_def error_frame_flags)
  have c0: "noackCounter can0_handler = 0" by (simp add: can0_handler_def)
  have a: "listenOnly can0_handler = False" by (simp add: can0_handler_def)
  have tenth: "noack_frames ! 10 = (os_at 100 0, error_frame CAN_ERR_ACK)"
    by (simp add: noack_frames_def)
  have eq: "noack_frames = replicate 11 (os_at 100 0, error_frame CAN_ERR_ACK)"
    by (rule noack_frames_def)
  have main: "feed_rxMsgError (Some can0_handler) noack_frames =
       (replicate 10 CO_INTERFACE_ACTIVE @ [CO_INTERFACE_LISTEN_ONLY],
        Some (can0_handler\<lparr>timestamp := \<lparr>tv_sec = 100, tv_nsec = 0\<rparr>, listenOnly := True\<rparr>),
        replicate 10 [] @
          [[System ''ip link set can0 down'', Recv_dropped 2, System ''ip link set can0 up'']])
   \<and> count_list (fst (feed_rxMsgError (Some can0_handler) noack_frames))
        CO_INTERFACE_LISTEN_ONLY = 1"
    using eleven_noack_frames_one_reset [OF len flags c0 a]
    by (simp add: tenth reset_action_def snprintf_command_def os_at_def can0_handler_def)
  show ?thesis
    using len eq error_frame_flags(3) error_frame_flags(4) c0 a main by blast
qed

text \<open>
  C2 as it is stated fails: eleven frames that carry the no-ACK flag together with the
  bus-off flag are handled by the bus-off check, which comes first and returns at once.
  Every one of the eleven calls resets the interface and reports ListenOnly.
\<close>

theorem eleven_noack_frames_with_busoff_counterexample:
  "length noack_busoff_frames = 11
   \<and> can_id (error_frame (CAN_ERR_BUSOFF OR CAN_ERR_ACK)) AND CAN_ERR_ACK \<noteq> 0
   \<and> noackCounter can0_handler = 0 \<and> listenOnly can0_handler = False
   \<and> fst (feed_rxMsgError (Some can0_handler) noack_busoff_frames) =
       replicate 11 CO_INTERFACE_LISTEN_ONLY
   \<and> count_list (fst (feed_rxMsgError (Some can0_handler) noack_busoff_frames))
       CO_INTERFACE_LISTEN_ONLY = 11"
  by (simp add: noack_busoff_frames_def numeral_eq_Suc
      rxMsgError_busoff [OF error_frame_flags(7)] error_frame_flags(8) can0_handler_def)

text \<open>
  C3, as amended. An error frame that carries neither the no-ACK flag nor the bus-off flag
  clears the no-ACK counter; the call reports Active and does nothing else.
\<close>

theorem error_frame_without_noack_clears_counter:
  assumes noack: "can_id msg AND CAN_ERR_ACK = 0"
    and nobusoff: "can_id msg AND CAN_ERR_BUSOFF = 0"
  shows "CO_CANerror_rxMsgError os (Some h) msg =
           (CO_INTERFACE_ACTIVE, Some (h\<lparr>noackCounter := 0\<rparr>), [])"
  using noack
  by (simp add: rxMsgError_no_busoff [OF nobusoff] CO_CANerrorNoack_def)

theorem error_frame_without_noack_clears_counter_witness:
  "can_id (error_frame CAN_ERR_CRTL) AND CAN_ERR_ACK = 0
   \<and> can_id (error_frame CAN_ERR_CRTL) AND CAN_ERR_BUSOFF = 0
   \<and> noackCounter can0_counting = 5
   \<and> CO_CANerror_rxMsgError (os_at 100 0) (Some can0_counting) (error_frame CAN_ERR_CRTL) =
       (CO_INTERFACE_ACTIVE, Some (can0_counting\<lparr>noackCounter := 0\<rparr>), [])"
  using error_frame_without_noack_clears_counter
          [OF error_frame_flags(5) error_frame_flags(6), of "os_at 100 0" can0_counting]
  by (simp add: error_frame_flags can0_counting_def)

text \<open>
  C3 as it is stated fails: a successfully received data frame is reported through
  \<open>CO_CANerror_rxMsg\<close>, which does not touch the counter, and a bus-off frame without the
  no-ACK flag returns from the bus-off check before the counter is looked at. After either,
  the counter still reads five.
\<close>

theorem data_frame_keeps_noack_counter_counterexample:
  "noackCounter can0_counting = 5
   \<and> map_option noackCounter (CO_CANerror_rxMsg (Some can0_counting)) = Some 5
   \<and> map_option noackCounter (CO_CANerror_rxMsg (Some can0_listening)) = Some 5
   \<and> can_id (error_frame CAN_ERR_BUSOFF) AND CAN_ERR_ACK = 0
   \<and> map_option noackCounter
        (fst (snd (CO_CANerror_rxMsgError (os_at 100 0) (Some can0_counting)
                     (error_frame CAN_ERR_BUSOFF)))) = Some 5"
  by (simp add: CO_CANerror_rxMsg_def CO_CANerrorClearListenOnly_def can0_counting_def
      can0_listening_def rxMsgError_busoff [OF error_frame_flags(1)] error_frame_flags(2))

text \<open>Adding five seconds to a timestamp does not wrap around unless the timestamp is
  within five seconds of the largest \<^verbatim>\<open>time_t\<close>.\<close>

lemma tv_sec_plus_5:
  fixes x :: "64 word"
  assumes "sint x + 5 < 2 ^ 63"
  shows "sint (x + 5) = sint x + 5"
proof -
  have lower: "- (2 ^ 63) \<le> sint x"
    using sint_ge [of x] by simp
  have "sint (x + 5) = signed_take_bit 63 (sint x + sint (5 :: 64 word))"
    by (simp add: sint_word_ariths)
  also have "sint (5 :: 64 word) = 5" by simp
  also have "signed_take_bit 63 (sint x + 5) = sint x + 5"
    using lower assms by (intro signed_take_bit_int_eq_self) simp_all
  finally show ?thesis .
qed

text \<open>
  C4, as amended. In listen-only, with the recorded timestamp more than five seconds below
  the largest \<^verbatim>\<open>time_t\<close> (so that adding five does not wrap around), a transmit attempt
  compares whole seconds of the monotonic clock: listen-only is cleared and Active
  reported exactly when the seconds of the clock exceed the seconds of the recorded
  timestamp by more than five; otherwise the call reports ListenOnly and changes nothing.
  In terms of elapsed time: once six seconds have passed since the timestamp the send is
  permitted, and while no more than five seconds have passed it is not.
\<close>

theorem listen_only_dwell_in_whole_seconds:
  assumes listening: "listenOnly h = True"
    and ts_ok: "timespec_ok (timestamp h)"
    and now_ok: "timespec_ok now"
    and no_wrap: "sint (tv_sec (timestamp h)) + 5 < 2 ^ 63"
  shows "(sint (tv_sec (timestamp h)) + 5 < sint (tv_sec now) \<longrightarrow>
            CO_CANerror_txMsg now (Some h) =
              (CO_INTERFACE_ACTIVE,
               Some (h\<lparr>listenOnly := False, timestamp := \<lparr>tv_sec = 0, tv_nsec = 0\<rparr>\<rparr>)))
       \<and> (\<not> sint (tv_sec (timestamp h)) + 5 < sint (tv_sec now) \<longrightarrow>
            CO_CANerror_txMsg now (Some h) = (CO_INTERFACE_LISTEN_ONLY, Some h))
       \<and> (6000000000 \<le> timespec_ns now - timespec_ns (timestamp h) \<longrightarrow>
            CO_CANerror_txMsg now (Some h) =
              (CO_INTERFACE_ACTIVE,
               Some (h\<lparr>listenOnly := False, timestamp := \<lparr>tv_sec = 0, tv_nsec = 0\<rparr>\<rparr>)))
       \<and> (timespec_ns now - timespec_ns (timestamp h) \<le> 5000000000 \<longrightarrow>
            CO_CANerror_txMsg now (Some h) = (CO_INTERFACE_LISTEN_ONLY, Some h))"
proof -
  have plus5: "sint (tv_sec (timestamp h) + 5) = sint (tv_sec (timestamp h)) + 5"
    using no_wrap by (rule tv_sec_plus_5)
  have late: "sint (tv_sec (timestamp h)) + 5 < sint (tv_sec now)"
    if "6000000000 \<le> timespec_ns now - timespec_ns (timestamp h)"
    using that ts_ok now_ok by (simp add: timespec_ns_def timespec_ok_def)
  have early: "\<not> sint (tv_sec (timestamp h)) + 5 < sint (tv_sec now)"
    if "timespec_ns now - timespec_ns (timestamp h) \<le> 5000000000"
    using that ts_ok now_ok by (simp add: timespec_ns_def timespec_ok_def)
  show ?thesis
    using listening late early
    by (auto simp add: CO_CANerror_txMsg_def CO_CANerrorClearListenOnly_def plus5)
qed

theorem listen_only_dwell_in_whole_seconds_witness:
  "listenOnly can0_listening = True
   \<and> timespec_ok (timestamp can0_listening)
   \<and> timespec_ok \<lparr>tv_sec = 16, tv_nsec = 0\<rparr>
   \<and> timespec_ok \<lparr>tv_sec = 15, tv_nsec = 0\<rparr>
   \<and> sint (tv_sec (timestamp can0_listening)) + 5 < 2 ^ 63
   \<and> 6000000000 \<le> timespec_ns \<lparr>tv_sec = 16, tv_nsec = 0\<rparr> - timespec_ns (timestamp can0_listening)
   \<and> CO_CANerror_txMsg \<lparr>tv_sec = 16, tv_nsec = 0\<rparr> (Some can0_listening) =
       (CO_INTERFACE_ACTIVE,
        Some (can0_listening\<lparr>listenOnly := False, timestamp := \<lparr>tv_sec = 0, tv_nsec = 0\<rparr>\<rparr>))
   \<and> timespec_ns \<lparr>tv_sec = 15, tv_nsec = 0\<rparr> - timespec_ns (timestamp can0_listening) \<le> 5000000000
   \<and> CO_CANerror_txMsg \<lparr>tv_sec = 15, tv_nsec = 0\<rparr> (Some can0_listening) =
       (CO_INTERFACE_LISTEN_ONLY, Some can0_listening)"
proof -
  have l: "listenOnly can0_listening = True" by (simp add: can0_listening_def)
  have t: "timespec_ok (timestamp can0_listening)"
    by (simp add: can0_listening_def timespec_ok_def)
  have n16: "timespec_ok \<lparr>tv_sec = 16, tv_nsec = 0\<rparr>" by (simp add: timespec_ok_def)
  have n15: "timespec_ok \<lparr>tv_sec = 15, tv_nsec = 0\<rparr>" by (simp add: timespec_ok_def)
  have b: "sint (tv_sec (timestamp can0_listening)) + 5 < 2 ^ 63"
    by (simp add: can0_listening_def)
  have e16: "6000000000 \<le> timespec_ns \<lparr>tv_sec = 16, tv_nsec = 0\<rparr>
                           - timespec_ns (timestamp can0_listening)"
    by (simp add: timespec_ns_def can0_listening_def)
  have e15: "timespec_ns \<lparr>tv_sec = 15, tv_nsec = 0\<rparr>
               - timespec_ns (timestamp can0_listening) \<le> 5000000000"
    by (simp add: timespec_ns_def can0_listening_def)
  show ?thesis
    using listen_only_dwell_in_whole_seconds [OF l t n16 b]
          listen_only_dwell_in_whole_seconds [OF l t n15 b] l t n16 n15 b e16 e15
    by blast
qed

text \<open>
  C4 as it is stated fails: five and a half seconds after the transition the dwell time of
  five seconds has elapsed, but the clock's seconds are only five ahead of the
  timestamp's, so the call still reports ListenOnly and leaves the handler as it is.
\<close>

theorem dwell_elapsed_still_listen_only_counterexample:
  "listenOnly can0_listening = True
   \<and> timespec_ns \<lparr>tv_sec = 15, tv_nsec = 500000000\<rparr> - timespec_ns (timestamp can0_listening)
       = 5500000000
   \<and> CO_CANerror_txMsg \<lparr>tv_sec = 15, tv_nsec = 500000000\<rparr> (Some can0_listening) =
       (CO_INTERFACE_LISTEN_ONLY, Some can0_listening)"
  by (simp add: CO_CANerror_txMsg_def can0_listening_def timespec_ns_def)

text \<open>Within five seconds of the largest \<^verbatim>\<open>time_t\<close> the sum wraps around to a
  negative number and the send is let through at once.\<close>

lemma dwell_sum_wraps_at_top_of_range:
  "CO_CANerror_txMsg \<lparr>tv_sec = 100, tv_nsec = 0\<rparr>
     (Some (can0_listening\<lparr>timestamp := \<lparr>tv_sec = 9223372036854775805, tv_nsec = 0\<rparr>\<rparr>)) =
   (CO_INTERFACE_ACTIVE,
    Some (can0_listening\<lparr>listenOnly := False, timestamp := \<lparr>tv_sec = 0, tv_nsec = 0\<rparr>\<rparr>))"
  by (simp add: CO_CANerror_txMsg_def CO_CANerrorClearListenOnly_def can0_listening_def)

section \<open>Properties of receive dispatch and transmit\<close>

text \<open>The length byte has eight bits, the extended-frame flag is bit 31: the test of the
  one against the other is never true.\<close>

lemma dlc_eff_never: "(ucast (d :: 8 word) :: 32 word) AND CAN_EFF_FLAG = 0"
proof (rule bit_word_eqI)
  fix n assume "n < LENGTH(32)"
  have e: "(0x80000000 :: 32 word) = 2 ^ 31" by simp
  have eff: "n = 31" if "bit CAN_EFF_FLAG n"
    using that unfolding CAN_EFF_FLAG_def e bit_exp_iff by simp
  have low: "n < 8" if "bit d n"
    using that bit_imp_le_length [of d n] by simp
  show "bit ((ucast d :: 32 word) AND CAN_EFF_FLAG) n = bit (0 :: 32 word) n"
    using eff low by (auto simp add: bit_and_iff bit_ucast_iff)
qed

lemma rx_search_none:
  assumes "k + n \<le> length arr"
    and "\<forall>l. k \<le> l \<and> l < k + n \<longrightarrow> \<not> rx_match rx_id (arr ! l)"
  shows "rx_search rx_id arr n k = Some (False, k + n)"
  using assms
proof (induction n arbitrary: k)
  case 0
  then show ?case by simp
next
  case (Suc n)
  have nk: "\<not> rx_match rx_id (arr ! k)" using Suc.prems(2) by simp
  have lt: "k < length arr" using Suc.prems(1) by simp
  have "rx_search rx_id arr n (Suc k) = Some (False, Suc k + n)"
    using Suc.prems by (intro Suc.IH) simp_all
  then show ?case using nk lt by simp
qed

lemma rx_search_first:
  assumes "k + n \<le> length arr"
    and "k \<le> r" and "r < k + n"
    and "rx_match rx_id (arr ! r)"
    and "\<forall>l. k \<le> l \<and> l < r \<longrightarrow> \<not> rx_match rx_id (arr ! l)"
  shows "rx_search rx_id arr n k = Some (True, r)"
  using assms
proof (induction n arbitrary: k)
  case 0
  then show ?case by simp
next
  case (Suc n)
  have lt: "k < length arr" using Suc.prems(1) by simp
  show ?case
  proof (cases "k = r")
    case True
    then show ?thesis using Suc.prems(4) lt by simp
  next
    case False
    hence kr: "k < r" using Suc.prems(2) by simp
    hence nk: "\<not> rx_match rx_id (arr ! k)" using Suc.prems(5) by simp
    have "rx_search rx_id arr n (Suc k) = Some (True, r)"
      using Suc.prems kr by (intro Suc.IH) simp_all
    then show ?thesis using nk lt by simp
  qed
qed

lemma CO_CANrxWait_dispatch:
  assumes wf: "unat (rxSize m) \<le> length (rxArray m)"
    and sw: "\<not> useCANrxFilters m"
    and noerr: "can_id frame AND CAN_ERR_FLAG = 0"
    and k: "k < unat (rxSize m)"
    and hit: "rx_match (can_id frame AND CAN_SFF_MASK) (rxArray m ! k)"
    and first: "\<forall>l<k. \<not> rx_match (can_id frame AND CAN_SFF_MASK) (rxArray m ! l)"
  shows "CO_CANrxWait (Some m) timeout CAN_OK (CAN_OK, frame) =
           Some (CO_ERROR_NO, deliver m k frame)"
proof -
  have "rx_search (can_id frame AND CAN_SFF_MASK) (rxArray m) (unat (rxSize m)) 0 = Some (True, k)"
    using wf k hit first by (intro rx_search_first) simp_all
  then show ?thesis
    using sw noerr
    by (simp add: CO_CANrxWait_def dlc_eff_never deliver_def split: option.splits)
qed

text \<open>A frame that no receive buffer accepts is dropped without an error.\<close>

lemma unmatched_frame_is_dropped:
  assumes wf: "unat (rxSize m) \<le> length (rxArray m)"
    and sw: "\<not> useCANrxFilters m"
    and noerr: "can_id frame AND CAN_ERR_FLAG = 0"
    and none: "\<forall>l. l < unat (rxSize m) \<longrightarrow>
                 \<not> rx_match (can_id frame AND CAN_SFF_MASK) (rxArray m ! l)"
  shows "CO_CANrxWait (Some m) timeout CAN_OK (CAN_OK, frame) = Some (CO_ERROR_NO, [])"
proof -
  have "rx_search (can_id frame AND CAN_SFF_MASK) (rxArray m) (unat (rxSize m)) 0 =
          Some (False, 0 + unat (rxSize m))"
    using wf none by (intro rx_search_none) simp_all
  then show ?thesis
    using sw noerr by (simp add: CO_CANrxWait_def dlc_eff_never)
qed

lemma module_ABC_facts:
  "unat (rxSize module_ABC) \<le> length (rxArray module_ABC)"
  "\<not> useCANrxFilters module_ABC"
  "(0::nat) < unat (rxSize module_ABC)"
  "(2::nat) < unat (rxSize module_ABC)"
  "rxArray module_ABC ! 0 = rx_A"
  "rxArray module_ABC ! 2 = rx_C"
  by (simp_all add: module_ABC_def)

lemma frame_ext:
  "can_id (data_frame (CAN_EFF_FLAG OR 0x12345181)) AND CAN_EFF_FLAG \<noteq> 0"
  "can_id (data_frame (CAN_EFF_FLAG OR 0x12345181)) AND CAN_ERR_FLAG = 0"
  "rx_match (can_id (data_frame (CAN_EFF_FLAG OR 0x12345181)) AND CAN_SFF_MASK) rx_A"
  by (simp_all add: data_frame_def CAN_ERR_FLAG_def CAN_SFF_MASK_def rx_match_def rx_A_def
      CAN_EFF_FLAG_def CAN_RTR_FLAG_def)

text \<open>
  C5 fails on the code. \<open>CO_CANrxWait\<close> means to drop extended frames (the branch is
  commented so), but it tests the flag on the length byte \<^verbatim>\<open>can_dlc\<close>, where it can
  never be set, and not on \<^verbatim>\<open>can_id\<close>. A frame with a 29-bit identifier whose low
  eleven bits are 0x181 is therefore matched against the receive buffers and the handler
  registered for 0x181 is called with it.
\<close>

theorem extended_frame_reaches_handler:
  "can_id (data_frame (CAN_EFF_FLAG OR 0x12345181)) AND CAN_EFF_FLAG \<noteq> 0
   \<and> CO_CANrxWait (Some module_ABC) 100 CAN_OK
        (CAN_OK, data_frame (CAN_EFF_FLAG OR 0x12345181)) =
      Some (CO_ERROR_NO,
            [Handler_call 0 11 (Some 1) (data_frame (CAN_EFF_FLAG OR 0x12345181))])"
proof -
  have hit: "rx_match (can_id (data_frame (CAN_EFF_FLAG OR 0x12345181)) AND CAN_SFF_MASK)
               (rxArray module_ABC ! 0)"
    by (simp add: module_ABC_facts(5) frame_ext(3))
  have "CO_CANrxWait (Some module_ABC) 100 CAN_OK
        (CAN_OK, data_frame (CAN_EFF_FLAG OR 0x12345181)) =
      Some (CO_ERROR_NO, deliver module_ABC 0 (data_frame (CAN_EFF_FLAG OR 0x12345181)))"
    using module_ABC_facts(1) module_ABC_facts(2) frame_ext(2) module_ABC_facts(3) hit
    by (rule CO_CANrxWait_dispatch) simp
  then show ?thesis
    using frame_ext(1) by (simp add: deliver_def module_ABC_facts(5) rx_A_def)
qed

lemma below_3: "(l < (3::nat)) = (l = 0 \<or> l = 1 \<or> l = 2)"
  by arith

lemmas dispatch_eval =
  module_ABC_def rx_A_def rx_B_def rx_C_def data_frame_def CAN_SFF_MASK_def CAN_EFF_FLAG_def
  CAN_RTR_FLAG_def CAN_ERR_FLAG_def less_2_cases_iff below_3

text \<open>
  C6. With software filtering, the identifier of every data frame (its low eleven bits) is
  compared with the receive buffers from offset 0 upwards, a buffer accepting it when
  \<^verbatim>\<open>((id ^ ident) & mask) == 0\<close>, and the first accepting buffer consumes the frame:
  its handler, if it has one, is called once with the frame, no other handler is called,
  and the call returns success. This holds whether one buffer accepts the identifier or
  several do. If the buffers at \<open>i\<close> and at \<open>j\<close>, \<open>i < j\<close>, both accept it, the frame
  goes to the first accepting buffer, which is at or before \<open>i\<close>, and the handler of
  \<open>j\<close> is not called. If no buffer accepts it, the frame is dropped and the call returns
  success.
\<close>

theorem dispatch_respects_registration_order:
  fixes m :: CO_CANmodule_t and frame :: can_frame and k i j :: nat
  defines "rx_id \<equiv> can_id frame AND CAN_SFF_MASK"
  assumes wf: "unat (rxSize m) \<le> length (rxArray m)"
    and sw: "\<not> useCANrxFilters m"
    and noerr: "can_id frame AND CAN_ERR_FLAG = 0"
  shows "(k < unat (rxSize m)
          \<and> (rx_id XOR ident (rxArray m ! k)) AND mask (rxArray m ! k) = 0
          \<and> (\<forall>l<k. (rx_id XOR ident (rxArray m ! l)) AND mask (rxArray m ! l) \<noteq> 0)
          \<longrightarrow> CO_CANrxWait (Some m) timeout CAN_OK (CAN_OK, frame) =
                Some (CO_ERROR_NO,
                      case pFunct (rxArray m ! k) of
                        None \<Rightarrow> []
                      | Some pf \<Rightarrow> [Handler_call k pf (object (rxArray m ! k)) frame]))
       \<and> (i < j \<and> j < unat (rxSize m)
          \<and> (rx_id XOR ident (rxArray m ! i)) AND mask (rxArray m ! i) = 0
          \<and> (rx_id XOR ident (rxArray m ! j)) AND mask (rxArray m ! j) = 0
          \<longrightarrow> (\<exists>k'\<le>i. (rx_id XOR ident (rxArray m ! k')) AND mask (rxArray m ! k') = 0
                  \<and> (\<forall>l<k'. (rx_id XOR ident (rxArray m ! l)) AND mask (rxArray m ! l) \<noteq> 0)
                  \<and> CO_CANrxWait (Some m) timeout CAN_OK (CAN_OK, frame) =
                      Some (CO_ERROR_NO,
                            case pFunct (rxArray m ! k') of
                              None \<Rightarrow> []
                            | Some pf \<Rightarrow> [Handler_call k' pf (object (rxArray m ! k')) frame])
                  \<and> (\<forall>pf ob fr. Handler_call j pf ob fr \<notin>
                        set (case pFunct (rxArray m ! k') of
                               None \<Rightarrow> []
                             | Some pf \<Rightarrow> [Handler_call k' pf (object (rxArray m ! k')) frame]))))
       \<and> ((\<forall>l<unat (rxSize m). (rx_id XOR ident (rxArray m ! l)) AND mask (rxArray m ! l) \<noteq> 0)
          \<longrightarrow> CO_CANrxWait (Some m) timeout CAN_OK (CAN_OK, frame) = Some (CO_ERROR_NO, []))"
proof -
  let ?P = "\<lambda>l. rx_match (can_id frame AND CAN_SFF_MASK) (rxArray m ! l)"
  let ?run = "CO_CANrxWait (Some m) timeout CAN_OK (CAN_OK, frame)"
  have acc: "((rx_id XOR ident (rxArray m ! l)) AND mask (rxArray m ! l) = 0) = ?P l" for l
    by (simp add: rx_match_def rx_id_def)
  have first: "?run = Some (CO_ERROR_NO, deliver m x frame)"
    if "x < unat (rxSize m)" "?P x" "\<forall>l<x. \<not> ?P l" for x
    using wf sw noerr that by (rule CO_CANrxWait_dispatch)
  have two: "\<exists>k'\<le>i. ?P k' \<and> (\<forall>l<k'. \<not> ?P l) \<and> ?run = Some (CO_ERROR_NO, deliver m k' frame)
               \<and> (\<forall>pf ob fr. Handler_call j pf ob fr \<notin> set (deliver m k' frame))"
    if ij: "i < j" and j: "j < unat (rxSize m)" and mi: "?P i"
  proof -
    define k' where "k' = (LEAST x. ?P x)"
    have pk: "?P k'" unfolding k'_def using mi by (rule LeastI)
    have ki: "k' \<le> i" unfolding k'_def using mi by (rule Least_le)
    have least: "\<forall>l<k'. \<not> ?P l" unfolding k'_def using not_less_Least by blast
    have kj: "k' < j" using ki ij by simp
    have run: "?run = Some (CO_ERROR_NO, deliver m k' frame)"
      using _ pk least by (rule first) (use kj j in simp)
    have notj: "\<forall>pf ob fr. Handler_call j pf ob fr \<notin> set (deliver m k' frame)"
      using kj by (simp add: deliver_def split: option.splits)
    show ?thesis using pk ki least run notj by blast
  qed
  have none: "?run = Some (CO_ERROR_NO, [])" if "\<forall>l<unat (rxSize m). \<not> ?P l"
    using wf sw noerr that by (intro unmatched_frame_is_dropped) simp_all
  have c1: "k < unat (rxSize m) \<and> ?P k \<and> (\<forall>l<k. \<not> ?P l)
            \<longrightarrow> ?run = Some (CO_ERROR_NO, deliver m k frame)"
    using first by blast
  have c2: "i < j \<and> j < unat (rxSize m) \<and> ?P i \<and> ?P j
            \<longrightarrow> (\<exists>k'\<le>i. ?P k' \<and> (\<forall>l<k'. \<not> ?P l)
                   \<and> ?run = Some (CO_ERROR_NO, deliver m k' frame)
                   \<and> (\<forall>pf ob fr. Handler_call j pf ob fr \<notin> set (deliver m k' frame)))"
    using two by blast
  have c3: "(\<forall>l<unat (rxSize m). \<not> ?P l) \<longrightarrow> ?run = Some (CO_ERROR_NO, [])"
    using none by blast
  show ?thesis
    unfolding acc using c1 c2 c3 unfolding deliver_def by blast
qed

theorem dispatch_respects_registration_order_witness:
  "unat (rxSize module_ABC) \<le> length (rxArray module_ABC)
   \<and> \<not> useCANrxFilters module_ABC
   \<and> can_id (data_frame 0x181) AND CAN_ERR_FLAG = 0
   \<and> can_id (data_frame 0x281) AND CAN_ERR_FLAG = 0
   \<and> can_id (data_frame 0x185) AND CAN_ERR_FLAG = 0
   \<and> can_id (data_frame 0x301) AND CAN_ERR_FLAG = 0
   \<and> ((can_id (data_frame 0x181) AND CAN_SFF_MASK) XOR ident (rxArray module_ABC ! 0))
        AND mask (rxArray module_ABC ! 0) = 0
   \<and> ((can_id (data_frame 0x181) AND CAN_SFF_MASK) XOR ident (rxArray module_ABC ! 2))
        AND mask (rxArray module_ABC ! 2) = 0
   \<and> CO_CANrxWait (Some module_ABC) 100 CAN_OK (CAN_OK, data_frame 0x181) =
        Some (CO_ERROR_NO, [Handler_call 0 11 (Some 1) (data_frame 0x181)])
   \<and> Handler_call 2 13 (Some 3) (data_frame 0x181) \<notin>
        set (snd (the (CO_CANrxWait (Some module_ABC) 100 CAN_OK (CAN_OK, data_frame 0x181))))
   \<and> CO_CANrxWait (Some module_ABC) 100 CAN_OK (CAN_OK, data_frame 0x281) =
        Some (CO_ERROR_NO, [Handler_call 1 12 (Some 2) (data_frame 0x281)])
   \<and> CO_CANrxWait (Some module_ABC) 100 CAN_OK (CAN_OK, data_frame 0x185) =
        Some (CO_ERROR_NO, [Handler_call 2 13 (Some 3) (data_frame 0x185)])
   \<and> CO_CANrxWait (Some module_ABC) 100 CAN_OK (CAN_OK, data_frame 0x301) =
        Some (CO_ERROR_NO, [])"
proof -
  have wf: "unat (rxSize module_ABC) \<le> length (rxArray module_ABC)"
    and sw: "\<not> useCANrxFilters module_ABC"
    by (simp_all add: module_ABC_def)
  have ne: "can_id (data_frame 0x181) AND CAN_ERR_FLAG = 0"
    "can_id (data_frame 0x281) AND CAN_ERR_FLAG = 0"
    "can_id (data_frame 0x185) AND CAN_ERR_FLAG = 0"
    "can_id (data_frame 0x301) AND CAN_ERR_FLAG = 0"
    by (simp_all add: data_frame_def CAN_ERR_FLAG_def)
  have acc: "((can_id (data_frame 0x181) AND CAN_SFF_MASK) XOR ident (rxArray module_ABC ! 0))
        AND mask (rxArray module_ABC ! 0) = 0"
    "((can_id (data_frame 0x181) AND CAN_SFF_MASK) XOR ident (rxArray module_ABC ! 2))
        AND mask (rxArray module_ABC ! 2) = 0"
    by (simp_all add: dispatch_eval)
  have r181: "CO_CANrxWait (Some module_ABC) 100 CAN_OK (CAN_OK, data_frame 0x181) =
        Some (CO_ERROR_NO, [Handler_call 0 11 (Some 1) (data_frame 0x181)])"
    using dispatch_respects_registration_order [OF wf sw ne(1), where k = 0 and timeout = 100,
        THEN conjunct1]
    by (simp add: dispatch_eval)
  have notC: "Handler_call 2 13 (Some 3) (data_frame 0x181) \<notin>
        set (snd (the (CO_CANrxWait (Some module_ABC) 100 CAN_OK (CAN_OK, data_frame 0x181))))"
    using dispatch_respects_registration_order [OF wf sw ne(1), where i = 0 and j = 2 and timeout = 100,
        THEN conjunct2, THEN conjunct1] acc
    by (auto simp add: module_ABC_def)
  have r281: "CO_CANrxWait (Some module_ABC) 100 CAN_OK (CAN_OK, data_frame 0x281) =
        Some (CO_ERROR_NO, [Handler_call 1 12 (Some 2) (data_frame 0x281)])"
    using dispatch_respects_registration_order [OF wf sw ne(2), where k = 1 and timeout = 100,
        THEN conjunct1]
    by (simp add: dispatch_eval)
  have r185: "CO_CANrxWait (Some module_ABC) 100 CAN_OK (CAN_OK, data_frame 0x185) =
        Some (CO_ERROR_NO, [Handler_call 2 13 (Some 3) (data_frame 0x185)])"
    using dispatch_respects_registration_order [OF wf sw ne(3), where k = 2 and timeout = 100,
        THEN conjunct1]
    by (simp add: dispatch_eval)
  have r301: "CO_CANrxWait (Some module_ABC) 100 CAN_OK (CAN_OK, data_frame 0x301) =
        Some (CO_ERROR_NO, [])"
    using dispatch_respects_registration_order [OF wf sw ne(4), where timeout = 100,
        THEN conjunct2, THEN conjunct2]
    by (simp add: dispatch_eval)
  show ?thesis
    using wf sw ne acc r181 notC r281 r185 r301 by blast
qed

text \<open>
  C7, as amended. \<open>CO_CANsend\<close> on a valid module and buffer always hands the frame to
  the transport; it returns the overflow error, and reports an emergency, when the
  transport's write returns anything but \<open>CAN_OK\<close>, and success otherwise. It has no
  access to the fault handler and no call returns \<open>CO_ERROR_TX_BUSY\<close>.
\<close>

theorem send_hands_frame_to_transport:
  "CO_CANsend (Some m) (Some buffer) state =
     (if state = CAN_OK then (CO_ERROR_NO, [Can_write buffer])
      else (CO_ERROR_TX_OVERFLOW,
            [Can_write buffer, Error_report CO_EM_CAN_TX_OVERFLOW CO_EMC_CAN_OVERRUN state]))
   \<and> fst (CO_CANsend mp bp state) \<noteq> CO_ERROR_TX_BUSY"
  by (simp add: CO_CANsend_def split: option.splits)

text \<open>
  C7 as it is stated fails: two seconds after the transition the fault handler is in
  listen-only and does not allow a send, yet \<open>CO_CANsend\<close> hands the frame to the
  transport and returns success.
\<close>

theorem send_in_listen_only_counterexample:
  "CO_CANerror_txMsg \<lparr>tv_sec = 12, tv_nsec = 0\<rparr> (Some can0_listening) =
     (CO_INTERFACE_LISTEN_ONLY, Some can0_listening)
   \<and> CO_CANsend (Some module_ABC) (Some (data_frame 0x181)) CAN_OK =
       (CO_ERROR_NO, [Can_write (data_frame 0x181)])"
  by (simp add: CO_CANerror_txMsg_def can0_listening_def CO_CANsend_def)

section \<open>Properties of the parameter store\<close>

lemma le32_bytes:
  fixes b0 b1 b2 b3 :: "8 word"
  defines "w \<equiv> (ucast b0 OR push_bit 8 (ucast b1) OR push_bit 16 (ucast b2)
                 OR push_bit 24 (ucast b3) :: 32 word)"
  shows "(ucast w :: 8 word) = b0"
    and "(ucast (drop_bit 8 w) :: 8 word) = b1"
    and "(ucast (drop_bit 16 w) :: 8 word) = b2"
    and "(ucast (drop_bit 24 w) :: 8 word) = b3"
  unfolding w_def
  by (rule bit_word_eqI; auto simp add: bit_simps dest: bit_imp_le_length)+

lemma take4_nth:
  assumes "4 \<le> length st"
  shows "take 4 st = [st ! 0, st ! 1, st ! 2, st ! 3]"
proof -
  from assms obtain a b c d rest where "st = a # b # c # d # rest"
    by (auto simp add: numeral_eq_Suc Suc_le_length_iff)
  then show ?thesis by simp
qed

lemma store_load_u32:
  assumes "4 \<le> length st" and "4 \<le> length d"
  shows "\<exists>w. load_u32 st = Some w \<and> store_u32 w d = Some (take 4 st @ drop 4 d)"
proof -
  from assms(1) obtain b0 b1 b2 b3 rest where st: "st = b0 # b1 # b2 # b3 # rest"
    by (auto simp add: numeral_eq_Suc Suc_le_length_iff)
  show ?thesis
    using assms(2) unfolding st
    by (simp add: load_u32_def store_u32_def le32_bytes del: drop_bit_or)
qed

lemma load_u32_take4:
  assumes "4 \<le> length st"
  shows "load_u32 (take 4 st @ xs) = load_u32 st"
  using assms by (simp add: load_u32_def take4_nth)

lemma restore_original_eq:
  assumes "ODdataStorage a = Some st" and "4 \<le> length st" and "4 \<le> length (data a)"
  shows "restore_original a = Some (a\<lparr>data := take 4 st @ drop 4 (data a)\<rparr>)"
proof -
  from store_load_u32 [OF assms(2,3)] obtain w where
    "load_u32 st = Some w" "store_u32 w (data a) = Some (take 4 st @ drop 4 (data a))"
    by blast
  then show ?thesis using assms(1) by (simp add: restore_original_def)
qed

lemma load_u32_length: "load_u32 bs = Some w \<Longrightarrow> 4 \<le> length bs"
  by (simp add: load_u32_def split: if_splits)

lemma load_u32_Some: "4 \<le> length bs \<Longrightarrow> \<exists>w. load_u32 bs = Some w"
  by (simp add: load_u32_def)

lemmas sub_defs =
  OD_1010_0_storeParameters_maxSubIndex_def
  OD_1010_1_storeParameters_saveAllParameters_def
  OD_1010_2_storeParameters_saveCommunicationRelatedParameters_def
  OD_1010_3_storeParameters_saveApplicationRelatedParameters_def
  OD_1010_4_storeParameters_saveRuntime_def
  OD_1010_5_storeParameters_saveSerialNumber_def
  OD_1010_6_storeParameters_saveTestData_def
  OD_1010_7_storeParameters_saveCalibrationData_def
  OD_1011_0_restoreDefaultParameters_maxSubIndex_def
  OD_1011_1_restoreDefaultParameters_restoreAllDefaultParameters_def
  OD_1011_2_restoreDefaultParameters_restoreCommunicationRelatedParameters_def
  OD_1011_3_restoreDefaultParameters_restoreApplicationRelatedParameters_def
  OD_1011_4_restoreDefaultParameters_restoreRuntime_def
  OD_1011_5_restoreDefaultParameters_restoreSerialNumber_def
  OD_1011_6_restoreDefaultParameters_restoreTestData_def
  OD_1011_7_restoreDefaultParameters_restoreCalibrationData_def
  OD_5000_0_serialNumber_maxSubIndex_def
  OD_5000_1_serialNumber_valid_def
  OD_5000_2_serialNumber_serial_def

lemma concrete_bytes:
  "load_u32 save_bytes = Some 0x65766173"
  "load_u32 load_bytes = Some 0x64616F6C"
  "load_u32 stored_bytes = Some 1"
  "length stored_bytes = 4"
  "length save_bytes = 4"
  "length load_bytes = 4"
  by (simp_all add: load_u32_def save_bytes_def load_bytes_def stored_bytes_def)

lemma write_arg_simps:
  "reading (write_arg sub bytes) = False"
  "subIndex (write_arg sub bytes) = sub"
  "data (write_arg sub bytes) = bytes"
  "ODdataStorage (write_arg sub bytes) = Some stored_bytes"
  "dataLength (write_arg sub bytes) = 4"
  "length bytes = 4 \<Longrightarrow> (write_arg sub bytes)\<lparr>data := take 4 stored_bytes @ drop 4 bytes\<rparr>
     = write_arg sub stored_bytes"
  by (simp_all add: write_arg_def stored_bytes_def)

text \<open>On every sub-index of object 0x1010, a write with a wrong signature saves nothing and
  has the stored bytes copied back; what the call returns on the sub-indices that are
  decided before the signature is looked at differs between the two versions.\<close>

lemma wrong_signature_every_subindex:
  assumes w: "reading a = False"
    and sig: "load_u32 (data a) = Some signature"
    and bad: "signature \<noteq> 0x65766173"
    and st: "ODdataStorage a = Some st"
    and len: "4 \<le> length st"
  shows "store_parameters_callback_part_000 sv s a =
           Some (CO_SDO_AB_DATA_TRANSF, a\<lparr>data := take 4 st @ drop 4 (data a)\<rparr>, s)
       \<and> store_parameters_callback_part_001 sv s a =
           Some (if subIndex a = 0 then CO_SDO_AB_NONE
                 else if subIndex a = 2 \<or> subIndex a = 4 then CO_SDO_AB_INVALID_VALUE
                 else CO_SDO_AB_DATA_TRANSF,
                 a\<lparr>data := take 4 st @ drop 4 (data a)\<rparr>, s)"
proof -
  have r: "restore_original a = Some (a\<lparr>data := take 4 st @ drop 4 (data a)\<rparr>)"
    using st len load_u32_length [OF sig] by (rule restore_original_eq)
  show ?thesis
    using w sig bad
    by (simp add: store_parameters_callback_part_000_def store_parameters_callback_part_001_def
        r sub_defs)
qed

text \<open>
  C8. A write to a signature-gated sub-index of object 0x1010 (every sub-index but the
  count, sub-index 0, and the read-only groups, sub-indices 2 and 4, which are decided
  without looking at the signature) whose first four bytes are not the signature "save"
  (0x65766173) is rejected with the abort the callbacks give for a wrong signature,
  \<open>CO_SDO_AB_DATA_TRANSF\<close>; nothing is saved, the serial-number record and the identity
  object stay as they are, and the four bytes the dictionary holds are copied back into
  the write target. This holds in both versions of the callback.
\<close>

theorem wrong_signature_rejected_and_restored:
  assumes w: "reading a = False"
    and sig: "load_u32 (data a) = Some signature"
    and bad: "signature \<noteq> 0x65766173"
    and st: "ODdataStorage a = Some st"
    and len: "4 \<le> length st"
    and not0: "subIndex a \<noteq> OD_1010_0_storeParameters_maxSubIndex"
    and not2: "subIndex a \<noteq> OD_1010_2_storeParameters_saveCommunicationRelatedParameters"
    and not4: "subIndex a \<noteq> OD_1010_4_storeParameters_saveRuntime"
  shows "store_parameters_callback_part_000 sv s a =
           Some (CO_SDO_AB_DATA_TRANSF, a\<lparr>data := take 4 st @ drop 4 (data a)\<rparr>, s)
       \<and> store_parameters_callback_part_001 sv s a =
           Some (CO_SDO_AB_DATA_TRANSF, a\<lparr>data := take 4 st @ drop 4 (data a)\<rparr>, s)"
  using wrong_signature_every_subindex [OF w sig bad st len, of sv s] not0 not2 not4
  by (simp add: sub_defs)

theorem wrong_signature_rejected_and_restored_witness:
  "reading (write_arg 3 load_bytes) = False
   \<and> load_u32 (data (write_arg 3 load_bytes)) = Some 0x64616F6C
   \<and> (0x64616F6C :: 32 word) \<noteq> 0x65766173
   \<and> ODdataStorage (write_arg 3 load_bytes) = Some stored_bytes
   \<and> 4 \<le> length stored_bytes
   \<and> subIndex (write_arg 3 load_bytes) \<noteq> OD_1010_0_storeParameters_maxSubIndex
   \<and> subIndex (write_arg 3 load_bytes) \<noteq>
        OD_1010_2_storeParameters_saveCommunicationRelatedParameters
   \<and> subIndex (write_arg 3 load_bytes) \<noteq> OD_1010_4_storeParameters_saveRuntime
   \<and> store_parameters_callback_part_000 storage_ok fresh_device (write_arg 3 load_bytes) =
        Some (CO_SDO_AB_DATA_TRANSF, write_arg 3 stored_bytes, fresh_device)
   \<and> store_parameters_callback_part_001 storage_ok fresh_device (write_arg 3 load_bytes) =
        Some (CO_SDO_AB_DATA_TRANSF, write_arg 3 stored_bytes, fresh_device)
   \<and> store_parameters_callback_part_000 storage_ok fresh_device (write_arg 5 load_bytes) =
        Some (CO_SDO_AB_DATA_TRANSF, write_arg 5 stored_bytes, fresh_device)
   \<and> store_parameters_callback_part_001 storage_ok fresh_device (write_arg 5 load_bytes) =
        Some (CO_SDO_AB_DATA_TRANSF, write_arg 5 stored_bytes, fresh_device)"
proof -
  have w: "reading (write_arg sub load_bytes) = False" for sub
    by (simp add: write_arg_simps)
  have sig: "load_u32 (data (write_arg sub load_bytes)) = Some 0x64616F6C" for sub
    by (simp add: write_arg_simps concrete_bytes)
  have bad: "(0x64616F6C :: 32 word) \<noteq> 0x65766173" by simp
  have st: "ODdataStorage (write_arg sub load_bytes) = Some stored_bytes" for sub
    by (simp add: write_arg_simps)
  have len: "4 \<le> length stored_bytes" by (simp add: concrete_bytes)
  have g3: "subIndex (write_arg 3 load_bytes) \<noteq> OD_1010_0_storeParameters_maxSubIndex"
    "subIndex (write_arg 3 load_bytes) \<noteq>
       OD_1010_2_storeParameters_saveCommunicationRelatedParameters"
    "subIndex (write_arg 3 load_bytes) \<noteq> OD_1010_4_storeParameters_saveRuntime"
    by (simp_all add: write_arg_simps sub_defs)
  have g5: "subIndex (write_arg 5 load_bytes) \<noteq> OD_1010_0_storeParameters_maxSubIndex"
    "subIndex (write_arg 5 load_bytes) \<noteq>
       OD_1010_2_storeParameters_saveCommunicationRelatedParameters"
    "subIndex (write_arg 5 load_bytes) \<noteq> OD_1010_4_storeParameters_saveRuntime"
    by (simp_all add: write_arg_simps sub_defs)
  have r3: "store_parameters_callback_part_000 storage_ok fresh_device (write_arg 3 load_bytes) =
        Some (CO_SDO_AB_DATA_TRANSF, write_arg 3 stored_bytes, fresh_device)
   \<and> store_parameters_callback_part_001 storage_ok fresh_device (write_arg 3 load_bytes) =
        Some (CO_SDO_AB_DATA_TRANSF, write_arg 3 stored_bytes, fresh_device)"
    using wrong_signature_rejected_and_restored
            [OF w sig bad st len g3, of storage_ok fresh_device]
    by (simp add: write_arg_simps concrete_bytes)
  have r5: "store_parameters_callback_part_000 storage_ok fresh_device (write_arg 5 load_bytes) =
        Some (CO_SDO_AB_DATA_TRANSF, write_arg 5 stored_bytes, fresh_device)
   \<and> store_parameters_callback_part_001 storage_ok fresh_device (write_arg 5 load_bytes) =
        Some (CO_SDO_AB_DATA_TRANSF, write_arg 5 stored_bytes, fresh_device)"
    using wrong_signature_rejected_and_restored
            [OF w sig bad st len g5, of storage_ok fresh_device]
    by (simp add: write_arg_simps concrete_bytes)
  show ?thesis
    using w [of 3] sig [of 3] bad st [of 3] len g3 r3 r5 by blast
qed

text \<open>
  C9 fails on the code of part\_001. With the validity flag false, a store through the
  save-serial-number sub-index (signature correct, storage working) succeeds but leaves
  the flag false, so the same store succeeds a second time: the serial number is saved
  twice. The same function in part\_000 sets the flag before it saves.
\<close>

theorem serial_store_leaves_flag_unset_part_001:
  "OD_serialNumber_valid fresh_device = False
   \<and> store_parameters_callback_part_001 storage_ok fresh_device (write_arg 5 save_bytes) =
        Some (CO_SDO_AB_NONE, write_arg 5 stored_bytes,
              fresh_device\<lparr>storage_calls := [Save SERIAL]\<rparr>)
   \<and> OD_serialNumber_valid (fresh_device\<lparr>storage_calls := [Save SERIAL]\<rparr>) = False
   \<and> store_parameters_callback_part_001 storage_ok
        (fresh_device\<lparr>storage_calls := [Save SERIAL]\<rparr>) (write_arg 5 save_bytes) =
        Some (CO_SDO_AB_NONE, write_arg 5 stored_bytes,
              fresh_device\<lparr>storage_calls := [Save SERIAL, Save SERIAL]\<rparr>)"
proof -
  have r: "restore_original (write_arg 5 save_bytes) = Some (write_arg 5 stored_bytes)"
    using restore_original_eq [of "write_arg 5 save_bytes" stored_bytes]
    by (simp add: write_arg_simps concrete_bytes)
  show ?thesis
    by (simp add: store_parameters_callback_part_001_def r write_arg_simps concrete_bytes sub_defs
        save_one_def storage_save_def storage_ok_def fresh_device_def)
qed

text \<open>The serial-number callback of part\_001 is defined but never registered with
  \<^verbatim>\<open>set_callback\<close>, so no write reaches it. Were it called, it would take the
  validity from the pointer to the stored value instead of from the flag and refuse a
  write to the serial number while the flag is still false.\<close>

lemma serial_write_refused_while_invalid_part_001:
  "OD_serialNumber_valid fresh_device = False
   \<and> serial_number_callback_part_001 fresh_device (write_arg 2 save_bytes) =
       Some (CO_SDO_AB_READONLY, write_arg 2 stored_bytes, fresh_device)"
  by (simp add: serial_number_callback_part_001_def write_arg_def sub_defs memcpy_def
      fresh_device_def stored_bytes_def save_bytes_def)

text \<open>In part\_000 the serial number is written once: the store through sub-index 5 sets
  the flag and saves; with the flag set, the same store is refused whatever the
  signature, and a write to the serial number itself is refused with the stored value
  copied back over the written one.\<close>

lemma serial_number_one_shot_part_000:
  assumes w: "reading a = False"
    and d: "4 \<le> length (data a)"
    and st: "ODdataStorage a = Some st" and len: "4 \<le> length st"
  shows "subIndex a = 5 \<Longrightarrow> OD_serialNumber_valid s = False \<Longrightarrow>
         load_u32 (data a) = Some 0x65766173 \<Longrightarrow> sv SERIAL = CO_ERROR_NO \<Longrightarrow>
         store_parameters_callback_part_000 sv s a =
           Some (CO_SDO_AB_NONE, a\<lparr>data := take 4 st @ drop 4 (data a)\<rparr>,
                 s\<lparr>OD_serialNumber_valid := True,
                   OD_identity_serialNumber := ucast (OD_serialNumber_serial s mod 100000000),
                   storage_calls := storage_calls s @ [Save SERIAL]\<rparr>)"
    and "subIndex a = 5 \<Longrightarrow> OD_serialNumber_valid s = True \<Longrightarrow>
         store_parameters_callback_part_000 sv s a =
           Some (CO_SDO_AB_DATA_TRANSF, a\<lparr>data := take 4 st @ drop 4 (data a)\<rparr>, s)"
    and "subIndex a = 2 \<Longrightarrow> OD_serialNumber_valid s = True \<Longrightarrow>
         unat (dataLength a) = length st \<Longrightarrow> length (data a) = length st \<Longrightarrow>
         serial_number_callback_part_000 s a = Some (CO_SDO_AB_READONLY, a\<lparr>data := st\<rparr>, s)"
proof -
  have r: "restore_original a = Some (a\<lparr>data := take 4 st @ drop 4 (data a)\<rparr>)"
    using st len d by (rule restore_original_eq)
  from load_u32_Some [OF d] obtain sg where sg: "load_u32 (data a) = Some sg" by blast
  show "subIndex a = 5 \<Longrightarrow> OD_serialNumber_valid s = False \<Longrightarrow>
         load_u32 (data a) = Some 0x65766173 \<Longrightarrow> sv SERIAL = CO_ERROR_NO \<Longrightarrow>
         store_parameters_callback_part_000 sv s a =
           Some (CO_SDO_AB_NONE, a\<lparr>data := take 4 st @ drop 4 (data a)\<rparr>,
                 s\<lparr>OD_serialNumber_valid := True,
                   OD_identity_serialNumber := ucast (OD_serialNumber_serial s mod 100000000),
                   storage_calls := storage_calls s @ [Save SERIAL]\<rparr>)"
    using w by (simp add: store_parameters_callback_part_000_def r sub_defs save_one_def
        storage_save_def Let_def)
  show "subIndex a = 5 \<Longrightarrow> OD_serialNumber_valid s = True \<Longrightarrow>
         store_parameters_callback_part_000 sv s a =
           Some (CO_SDO_AB_DATA_TRANSF, a\<lparr>data := take 4 st @ drop 4 (data a)\<rparr>, s)"
    using w sg by (simp add: store_parameters_callback_part_000_def r sub_defs)
  show "subIndex a = 2 \<Longrightarrow> OD_serialNumber_valid s = True \<Longrightarrow>
         unat (dataLength a) = length st \<Longrightarrow> length (data a) = length st \<Longrightarrow>
         serial_number_callback_part_000 s a = Some (CO_SDO_AB_READONLY, a\<lparr>data := st\<rparr>, s)"
    using w st by (simp add: serial_number_callback_part_000_def sub_defs memcpy_def)
qed

text \<open>
  C10. On every write, whatever the sub-index and the signature, and whether the
  operation succeeds or not, the callbacks of 0x1010 and 0x1011 return with the four
  bytes the dictionary holds copied over the first four bytes of the write target (both
  versions of both callbacks). Read as a 32-bit value, the write target is then the
  stored value, so the signature is never what is written to the dictionary entry.
\<close>

theorem callbacks_restore_stored_bytes:
  assumes w: "reading a = False"
    and d: "4 \<le> length (data a)"
    and st: "ODdataStorage a = Some st"
    and len: "4 \<le> length st"
  shows "map_option (fst \<circ> snd) (store_parameters_callback_part_000 sv s a) =
           Some (a\<lparr>data := take 4 st @ drop 4 (data a)\<rparr>)
       \<and> map_option (fst \<circ> snd) (store_parameters_callback_part_001 sv s a) =
           Some (a\<lparr>data := take 4 st @ drop 4 (data a)\<rparr>)
       \<and> map_option (fst \<circ> snd) (restore_default_parameters_callback_part_000 s a) =
           Some (a\<lparr>data := take 4 st @ drop 4 (data a)\<rparr>)
       \<and> map_option (fst \<circ> snd) (restore_default_parameters_callback_part_001 s a) =
           Some (a\<lparr>data := take 4 st @ drop 4 (data a)\<rparr>)
       \<and> load_u32 (take 4 st @ drop 4 (data a)) = load_u32 st"
proof -
  have r: "restore_original a = Some (a\<lparr>data := take 4 st @ drop 4 (data a)\<rparr>)"
    using st len d by (rule restore_original_eq)
  from load_u32_Some [OF d] obtain sg where sg: "load_u32 (data a) = Some sg" by blast
  have one: "\<exists>c s'. save_one sv t a1 s1 = (c, a1, s')" for t a1 s1
    by (simp add: save_one_def split: prod.splits)
  have all: "\<exists>c s'. save_all sv a1 s1 = (c, a1, s')" for a1 s1
    by (simp add: save_all_def split: prod.splits)
  have 1: "map_option (fst \<circ> snd) (store_parameters_callback_part_000 sv s a) =
           Some (a\<lparr>data := take 4 st @ drop 4 (data a)\<rparr>)"
    using w by (simp add: store_parameters_callback_part_000_def r sg one all Let_def)
  have 2: "map_option (fst \<circ> snd) (store_parameters_callback_part_001 sv s a) =
           Some (a\<lparr>data := take 4 st @ drop 4 (data a)\<rparr>)"
    using w by (simp add: store_parameters_callback_part_001_def r sg one all)
  have 3: "map_option (fst \<circ> snd) (restore_default_parameters_callback_part_000 s a) =
           Some (a\<lparr>data := take 4 st @ drop 4 (data a)\<rparr>)"
    using w by (simp add: restore_default_parameters_callback_part_000_def r sg)
  have 4: "map_option (fst \<circ> snd) (restore_default_parameters_callback_part_001 s a) =
           Some (a\<lparr>data := take 4 st @ drop 4 (data a)\<rparr>)"
    using w by (simp add: restore_default_parameters_callback_part_001_def r sg)
  show ?thesis
    using 1 2 3 4 load_u32_take4 [OF len] by simp
qed

theorem callbacks_restore_stored_bytes_witness:
  "reading (write_arg 1 save_bytes) = False
   \<and> 4 \<le> length (data (write_arg 1 save_bytes))
   \<and> ODdataStorage (write_arg 1 save_bytes) = Some stored_bytes
   \<and> 4 \<le> length stored_bytes
   \<and> store_parameters_callback_part_000 storage_ok fresh_device (write_arg 1 save_bytes) =
        Some (CO_SDO_AB_NONE, write_arg 1 stored_bytes,
              fresh_device\<lparr>storage_calls := [Save PARAMS, Save TEST, Save CALIB]\<rparr>)
   \<and> map_option (fst \<circ> snd)
        (store_parameters_callback_part_000 storage_ok fresh_device (write_arg 1 save_bytes)) =
        Some (write_arg 1 stored_bytes)
   \<and> map_option (fst \<circ> snd)
        (store_parameters_callback_part_001 storage_ok fresh_device (write_arg 1 save_bytes)) =
        Some (write_arg 1 stored_bytes)
   \<and> map_option (fst \<circ> snd)
        (restore_default_parameters_callback_part_000 fresh_device (write_arg 1 save_bytes)) =
        Some (write_arg 1 stored_bytes)
   \<and> map_option (fst \<circ> snd)
        (restore_default_parameters_callback_part_001 fresh_device (write_arg 1 save_bytes)) =
        Some (write_arg 1 stored_bytes)
   \<and> load_u32 (data (write_arg 1 stored_bytes)) = Some 1"
proof -
  have w: "reading (write_arg 1 save_bytes) = False" by (simp add: write_arg_simps)
  have d: "4 \<le> length (data (write_arg 1 save_bytes))"
    by (simp add: write_arg_simps concrete_bytes)
  have st: "ODdataStorage (write_arg 1 save_bytes) = Some stored_bytes"
    by (simp add: write_arg_simps)
  have len: "4 \<le> length stored_bytes" by (simp add: concrete_bytes)
  have r: "restore_original (write_arg 1 save_bytes) = Some (write_arg 1 stored_bytes)"
    using restore_original_eq [OF st len d] by (simp add: write_arg_simps concrete_bytes)
  have run: "store_parameters_callback_part_000 storage_ok fresh_device (write_arg 1 save_bytes) =
        Some (CO_SDO_AB_NONE, write_arg 1 stored_bytes,
              fresh_device\<lparr>storage_calls := [Save PARAMS, Save TEST, Save CALIB]\<rparr>)"
    by (simp add: store_parameters_callback_part_000_def r write_arg_simps concrete_bytes sub_defs
        save_all_def storage_save_def storage_ok_def fresh_device_def)
  have upd: "(write_arg 1 save_bytes)\<lparr>data := stored_bytes\<rparr> = write_arg 1 stored_bytes"
    by (simp add: write_arg_def)
  show ?thesis
    using callbacks_restore_stored_bytes [OF w d st len, of storage_ok fresh_device] w d st len run
    by (simp add: write_arg_simps concrete_bytes upd)
qed

end
